theory Spec2Isabelle
  imports Complex_Main
begin

section \<open>Numeric columns\<close>

text \<open>
  A pandas float column is a list of \<open>real option\<close>: \<open>None\<close> is NaN (a missing value),
  \<open>Some v\<close> a number. Floating-point rounding is not modelled: numbers are reals.
  The exceptions the modelled code can raise are values of \<open>py_error\<close>.
\<close>

datatype py_error = ValueError | IndexError | ZeroDivisionError

type_synonym column = "real option list"

text \<open>\<open>a < b\<close> on floats: false as soon as one side is NaN.\<close>

fun nan_less :: "real option \<Rightarrow> real option \<Rightarrow> bool" where
  "nan_less (Some a) (Some b) = (a < b)"
| "nan_less _ _ = False"

text \<open>Python's \<open>int(f)\<close> on a float: truncation towards zero.\<close>

definition py_int :: "real \<Rightarrow> int" where
  "py_int r = (if 0 \<le> r then \<lfloor>r\<rfloor> else \<lceil>r\<rceil>)"

text \<open>The first exception raised while the results are produced in order, or all results.\<close>

fun collect :: "(py_error + 'a) list \<Rightarrow> py_error + 'a list" where
  "collect [] = Inr []"
| "collect (Inl e # rs) = Inl e"
| "collect (Inr v # rs) = (case collect rs of Inl e \<Rightarrow> Inl e | Inr vs \<Rightarrow> Inr (v # vs))"

section \<open>Rolling percentile (factors.py)\<close>

text \<open>
  The closure \<open>calc_pct\<close> of \<open>rolling_percentile\<close>, applied by pandas to one window \<open>x\<close>
  (the rows of the window, missing values included):
  \<^verbatim>\<open>
    if len(x) < window * 0.5: return np.nan
    current = x.iloc[-1]
    rank = (x < current).sum()
    return rank / (len(x) - 1) if len(x) > 1 else 0.5
  \<close>
  \<open>x.iloc[-1]\<close> raises IndexError on an empty window.
\<close>

definition calc_pct :: "int \<Rightarrow> column \<Rightarrow> py_error + real option" where
  "calc_pct window x =
     (if real (length x) < real_of_int window * 0.5 then Inr None
      else if x = [] then Inl IndexError
      else
        let current = last x;
            rank = length (filter (\<lambda>v. nan_less v current) x)
        in Inr (Some (if length x > 1 then real rank / real (length x - 1) else 0.5)))"

text \<open>
  The trailing window of pandas' fixed-size rolling ending at position \<open>i\<close> inclusive:
  rows \<open>max 0 (i + 1 - window) .. i\<close>.
\<close>

definition window_at :: "nat \<Rightarrow> 'a list \<Rightarrow> nat \<Rightarrow> 'a list" where
  "window_at w xs i = drop (Suc i - w) (take (Suc i) xs)"

text \<open>The number of observations (values that are not NaN) of a window.\<close>

definition count_valid :: "column \<Rightarrow> nat" where
  "count_valid x = length (filter (\<lambda>v. v \<noteq> None) x)"

text \<open>
  \<open>series.rolling(window, min_periods).apply(f, raw=False)\<close> of pandas. The constructor
  validates its arguments before it looks at the data (\<open>min_periods must be >= 0\<close>,
  \<open>min_periods must be <= window\<close>, \<open>window must be an integer 0 or greater\<close>, each a
  ValueError). Then, position by position, \<open>f\<close> is called on the window when the window
  holds at least \<open>min_periods\<close> observations, and the output is NaN otherwise.
\<close>

definition rolling_apply ::
  "int \<Rightarrow> int \<Rightarrow> (column \<Rightarrow> py_error + real option) \<Rightarrow> column \<Rightarrow> py_error + column" where
  "rolling_apply window min_periods f series =
     (if min_periods < 0 then Inl ValueError
      else if min_periods > window then Inl ValueError
      else if window < 0 then Inl ValueError
      else collect (map (\<lambda>i.
             let x = window_at (nat window) series i
             in if min_periods \<le> int (count_valid x) then f x else Inr None)
           [0..<length series]))"

text \<open>
  \<^verbatim>\<open>
    return series.rolling(window=window, min_periods=int(window * 0.5)).apply(calc_pct, raw=False)
  \<close>
\<close>

definition rolling_percentile :: "column \<Rightarrow> int \<Rightarrow> py_error + column" where
  "rolling_percentile series window =
     rolling_apply window (py_int (real_of_int window * 0.5)) (calc_pct window) series"

section \<open>Hysteresis state machine of the trend strategy (strategy.py)\<close>

text \<open>\<open>class Signal(IntEnum)\<close>: SHORT = -1, FLAT = 0, LONG = 1.\<close>

datatype Signal = SHORT | FLAT | LONG

fun signal_value :: "Signal \<Rightarrow> int" where
  "signal_value SHORT = -1"
| "signal_value FLAT = 0"
| "signal_value LONG = 1"

text \<open>\<open>BetaStrategyParams\<close>; the defaults are 0.05, 0.30, 0.95 and 0.70.\<close>

record BetaStrategyParams =
  long_entry :: real
  long_exit :: real
  short_entry :: real
  short_exit :: real

definition default_params :: BetaStrategyParams where
  "default_params = \<lparr>long_entry = 0.05, long_exit = 0.30, short_entry = 0.95,
     short_exit = 0.70\<rparr>"

text \<open>
  The reason column holds formatted text; the model keeps which of the ten messages of
  \<open>generate_signals\<close> was written, in the order they stand in the source.
\<close>

datatype reason =
    Missing_keep | Trigger_long | Trigger_short | Watch
  | Long_to_short | Close_long | Hold_long
  | Short_to_long | Close_short | Hold_short

record signal_row =
  row_date :: nat
  row_percentile :: "real option"
  row_signal :: Signal
  row_reason :: reason

text \<open>
  One pass of the loop body of \<open>BetaStrategy.generate_signals\<close>: the position held before
  the row and the row's percentile give the position after it and the reason.
  A NaN percentile keeps the position (the \<open>continue\<close> branch).
\<close>

fun beta_step :: "BetaStrategyParams \<Rightarrow> Signal \<Rightarrow> real option \<Rightarrow> Signal \<times> reason" where
  "beta_step params position None = (position, Missing_keep)"
| "beta_step params FLAT (Some pct) =
     (if pct < long_entry params then (LONG, Trigger_long)
      else if pct > short_entry params then (SHORT, Trigger_short)
      else (FLAT, Watch))"
| "beta_step params LONG (Some pct) =
     (if pct > long_exit params then
        (if pct > short_entry params then (SHORT, Long_to_short) else (FLAT, Close_long))
      else (LONG, Hold_long))"
| "beta_step params SHORT (Some pct) =
     (if pct < short_exit params then
        (if pct < long_entry params then (LONG, Short_to_long) else (FLAT, Close_short))
      else (SHORT, Hold_short))"

text \<open>The loop over the rows (date, percentile) of the percentile table, in order.\<close>

fun beta_scan ::
  "BetaStrategyParams \<Rightarrow> Signal \<Rightarrow> (nat \<times> real option) list \<Rightarrow> signal_row list" where
  "beta_scan params position [] = []"
| "beta_scan params position ((d, pct) # rows) =
     (case beta_step params position pct of
        (position', why) \<Rightarrow>
          \<lparr>row_date = d, row_percentile = pct, row_signal = position', row_reason = why\<rparr>
            # beta_scan params position' rows)"

text \<open>
  \<open>generate_signals\<close>, as a function of the table that \<open>calculate_global_percentile\<close>
  returned: the scan starts from \<open>Signal.FLAT\<close>; an empty table gives an empty result.
\<close>

definition generate_signals ::
  "BetaStrategyParams \<Rightarrow> (nat \<times> real option) list \<Rightarrow> signal_row list" where
  "generate_signals params global_pct = beta_scan params FLAT global_pct"

section \<open>Vectorised backtest (backtest_engine.py)\<close>

record BacktestConfig =
  commission_rate :: real
  slippage_rate :: real
  risk_free_rate :: real
  trading_days_per_year :: int

text \<open>The defaults of the dataclass \<open>BacktestConfig\<close>.\<close>

definition default_config :: BacktestConfig where
  "default_config = \<lparr>commission_rate = 0.001, slippage_rate = 0.0005,
     risk_free_rate = 0.02, trading_days_per_year = 252\<rparr>"

subsection \<open>Column operations of pandas and numpy\<close>

text \<open>\<open>s.shift(1)\<close>: every value moves one row down, the first row becomes NaN.\<close>

definition shift1 :: "'a option list \<Rightarrow> 'a option list" where
  "shift1 xs = take (length xs) (None # xs)"

text \<open>\<open>s.fillna(v)\<close> and \<open>s.dropna()\<close>.\<close>

definition fillna :: "'a \<Rightarrow> 'a option list \<Rightarrow> 'a list" where
  "fillna v xs = map (\<lambda>x. case x of None \<Rightarrow> v | Some y \<Rightarrow> y) xs"

definition dropna :: "'a option list \<Rightarrow> 'a list" where
  "dropna xs = concat (map (\<lambda>x. case x of None \<Rightarrow> [] | Some y \<Rightarrow> [y]) xs)"

text \<open>
  Float division and \<open>np.log\<close>, NaN going through. The reals have no infinity: where
  numpy gives an infinity (a division by zero, the logarithm of zero) the model gives
  \<open>None\<close>. In the backtest that happens only when a price is exactly zero; the
  logarithm of a negative number is NaN in numpy as well. The columns with their
  infinities are modelled in a subsection of their own below; they are these columns
  whenever no price is zero.
\<close>

fun fdiv :: "real option \<Rightarrow> real option \<Rightarrow> real option" where
  "fdiv (Some a) (Some b) = (if b = 0 then None else Some (a / b))"
| "fdiv _ _ = None"

fun np_log :: "real option \<Rightarrow> real option" where
  "np_log (Some r) = (if 0 < r then Some (ln r) else None)"
| "np_log None = None"

text \<open>\<open>s.diff()\<close> on an integer column: the difference to the row before, NaN in the first row.\<close>

definition diff :: "int list \<Rightarrow> int option list" where
  "diff xs = map2 (\<lambda>a b. map_option (\<lambda>b'. a - b') b) xs (shift1 (map Some xs))"

text \<open>\<open>s.cumprod()\<close> and \<open>s.cummax()\<close> on columns without NaN.\<close>

fun cumprod_from :: "real \<Rightarrow> real list \<Rightarrow> real list" where
  "cumprod_from acc [] = []"
| "cumprod_from acc (x # xs) = (acc * x) # cumprod_from (acc * x) xs"

definition cumprod :: "real list \<Rightarrow> real list" where
  "cumprod xs = cumprod_from 1 xs"

fun cummax_from :: "real \<Rightarrow> real list \<Rightarrow> real list" where
  "cummax_from m [] = []"
| "cummax_from m (x # xs) = max m x # cummax_from (max m x) xs"

fun cummax :: "real list \<Rightarrow> real list" where
  "cummax [] = []"
| "cummax (x # xs) = x # cummax_from x xs"

subsection \<open>The result table\<close>

text \<open>The columns of \<open>df\<close> after \<open>run\<close>, each a list with one entry per date.\<close>

record frame =
  price :: column
  signal :: "int list"
  market_return :: column
  position :: "int list"
  position_change :: "real list"
  trade_cost :: "real list"
  strategy_return :: column
  cumulative_market :: "real list"
  cumulative_strategy :: "real list"
  strategy_peak :: "real list"
  drawdown :: "real list"

text \<open>
  The core of \<open>VectorBacktester.run\<close>, steps 1 to 7, on the merged table of
  \<open>prepare_data\<close> (one row per date: the price, and the integer signal after
  \<open>ffill().fillna(0).astype(int)\<close>):
  \<^verbatim>\<open>
    df['market_return'] = np.log(df['price'] / df['price'].shift(1))
    df['position'] = df['signal'].shift(1).fillna(0).astype(int)
    df['position_change'] = df['position'].diff().abs().fillna(0)
    total_cost_rate = self.config.commission_rate + self.config.slippage_rate
    df['trade_cost'] = df['position_change'] * total_cost_rate
    df['strategy_return'] = df['position'] * df['market_return'] - df['trade_cost']
    df['cumulative_market'] = (1 + df['market_return'].fillna(0)).cumprod()
    df['cumulative_strategy'] = (1 + df['strategy_return'].fillna(0)).cumprod()
    df['strategy_peak'] = df['cumulative_strategy'].cummax()
    df['drawdown'] = df['cumulative_strategy'] / df['strategy_peak'] - 1
  \<close>
\<close>

definition run_core :: "BacktestConfig \<Rightarrow> (real option \<times> int) list \<Rightarrow> frame" where
  "run_core config df =
     (let price_c = map fst df;
          signal_c = map snd df;
          market_return_c = map2 (\<lambda>p q. np_log (fdiv p q)) price_c (shift1 price_c);
          position_c = fillna 0 (shift1 (map Some signal_c));
          position_change_c =
            fillna 0 (map (map_option (\<lambda>d. \<bar>real_of_int d\<bar>)) (diff position_c));
          total_cost_rate = commission_rate config + slippage_rate config;
          trade_cost_c = map (\<lambda>c. c * total_cost_rate) position_change_c;
          strategy_return_c =
            map2 (\<lambda>(pos, mr) cost. map_option (\<lambda>m. real_of_int pos * m - cost) mr)
              (zip position_c market_return_c) trade_cost_c;
          cumulative_market_c = cumprod (map (\<lambda>r. 1 + r) (fillna 0 market_return_c));
          cumulative_strategy_c = cumprod (map (\<lambda>r. 1 + r) (fillna 0 strategy_return_c));
          strategy_peak_c = cummax cumulative_strategy_c;
          drawdown_c = map2 (\<lambda>c p. c / p - 1) cumulative_strategy_c strategy_peak_c
      in \<lparr>price = price_c, signal = signal_c, market_return = market_return_c,
          position = position_c, position_change = position_change_c,
          trade_cost = trade_cost_c, strategy_return = strategy_return_c,
          cumulative_market = cumulative_market_c,
          cumulative_strategy = cumulative_strategy_c,
          strategy_peak = strategy_peak_c, drawdown = drawdown_c\<rparr>)"

text \<open>
  The start of \<open>_calculate_metrics\<close>, which \<open>run\<close> calls before it returns:
  \<^verbatim>\<open>
    returns = df['strategy_return'].dropna()
    n_days = len(returns)
    if n_days == 0: return
    ...
    years = n_days / config.trading_days_per_year
  \<close>
  The division of two Python ints is the one statement of the metrics that can raise.
  The result is \<open>None\<close> when the function returns early, and the years otherwise.
\<close>

definition metrics_years :: "BacktestConfig \<Rightarrow> frame \<Rightarrow> py_error + real option" where
  "metrics_years config df =
     (let n_days = length (dropna (strategy_return df))
      in if n_days = 0 then Inr None
         else if trading_days_per_year config = 0 then Inl ZeroDivisionError
         else Inr (Some (real n_days / real_of_int (trading_days_per_year config))))"

text \<open>
  \<open>run\<close>: fewer than two rows raise ValueError; an exception of the metrics leaves
  \<open>run\<close> as well; otherwise the table is returned.
\<close>

definition run :: "BacktestConfig \<Rightarrow> (real option \<times> int) list \<Rightarrow> py_error + frame" where
  "run config df =
     (if length df < 2 then Inl ValueError
      else case metrics_years config (run_core config df) of
             Inl e \<Rightarrow> Inl e
           | Inr _ \<Rightarrow> Inr (run_core config df))"

subsection \<open>Guarded ratios of the metrics\<close>

text \<open>
  The ratio lines of \<open>_calculate_metrics\<close>, each a function of the statistics computed
  above it (which may be NaN):
  \<^verbatim>\<open>
    sharpe = excess_return / volatility if volatility > 0 else 0
    sortino = excess_return / downside_std if downside_std > 0 else 0
    calmar = cagr / abs(max_drawdown) if max_drawdown != 0 else 0
    if market_returns.var() > 0: beta = returns.cov(market_returns) / market_returns.var()
    else: beta = 0
  \<close>
\<close>

definition sharpe_ratio :: "real option \<Rightarrow> real option \<Rightarrow> real option" where
  "sharpe_ratio excess_return volatility =
     (if nan_less (Some 0) volatility then fdiv excess_return volatility else Some 0)"

definition sortino_ratio :: "real option \<Rightarrow> real option \<Rightarrow> real option" where
  "sortino_ratio excess_return downside_std =
     (if nan_less (Some 0) downside_std then fdiv excess_return downside_std else Some 0)"

definition calmar_ratio :: "real option \<Rightarrow> real option \<Rightarrow> real option" where
  "calmar_ratio cagr max_drawdown =
     (if max_drawdown \<noteq> Some 0 then fdiv cagr (map_option abs max_drawdown) else Some 0)"

definition beta_ratio :: "real option \<Rightarrow> real option \<Rightarrow> real option" where
  "beta_ratio covariance market_var =
     (if nan_less (Some 0) market_var then fdiv covariance market_var else Some 0)"

subsection \<open>Trade statistics\<close>

text \<open>\<open>s.sum()\<close> skips NaN; \<open>a.mean()\<close> of a numpy array that is not empty.\<close>

definition nansum :: "column \<Rightarrow> real" where
  "nansum xs = sum_list (dropna xs)"

definition mean :: "real list \<Rightarrow> real" where
  "mean xs = sum_list xs / real (length xs)"

text \<open>
  \<open>_calc_trade_stats\<close> reads two columns of the table. The boundaries are the rows
  whose position change is positive; \<open>df.loc[start_idx:end_idx]\<close> is a label slice,
  both ends included. The dates of the index are unique and ascending, so a label is
  modelled by its row number. The result is (win_rate, profit_factor, avg_trade_return).
\<close>

definition trade_indices :: "real list \<Rightarrow> nat list" where
  "trade_indices position_change_c =
     filter (\<lambda>i. position_change_c ! i > 0) [0..<length position_change_c]"

definition trade_returns :: "real list \<Rightarrow> column \<Rightarrow> real list" where
  "trade_returns position_change_c strategy_return_c =
     (let ti = trade_indices position_change_c
      in map (\<lambda>(start_idx, end_idx).
                nansum (take (Suc end_idx - start_idx) (drop start_idx strategy_return_c)))
           (zip ti (tl ti)))"

definition calc_trade_stats :: "real list \<Rightarrow> column \<Rightarrow> real \<times> real \<times> real" where
  "calc_trade_stats position_change_c strategy_return_c =
     (if length (trade_indices position_change_c) < 2 then (0, 0, 0)
      else
        let tr = trade_returns position_change_c strategy_return_c
        in if tr = [] then (0, 0, 0)
           else
             let wins = length (filter (\<lambda>r. r > 0) tr);
                 win_rate = (if length tr > 0 then real wins / real (length tr) else 0);
                 avg_win = (if wins > 0 then mean (filter (\<lambda>r. r > 0) tr) else 0);
                 losses = length (filter (\<lambda>r. r < 0) tr);
                 avg_loss = (if losses > 0 then \<bar>mean (filter (\<lambda>r. r < 0) tr)\<bar> else 1);
                 profit_factor = (if avg_loss > 0 then avg_win / avg_loss else 0);
                 avg_trade_return = mean tr
             in (win_rate, profit_factor, avg_trade_return))"

subsection \<open>The float columns with infinities\<close>

text \<open>
  The return and equity columns once more, now with the infinities of IEEE arithmetic:
  a value is a number (a real: rounding and overflow are not modelled), plus or minus
  infinity, or NaN. A zero is taken as \<open>+0\<close>. The rules below are those of numpy
  on float64: NaN is absorbing, \<open>x / 0\<close> is an infinity of the sign of \<open>x\<close> and
  \<open>0 / 0\<close> is NaN, \<open>0 * inf\<close>, \<open>inf - inf\<close> and \<open>inf / inf\<close> are NaN,
  \<open>log 0\<close> is \<open>-inf\<close> and the logarithm of a negative number is NaN.
\<close>

datatype ieee = Fin real | PInf | NInf | NaN

fun of_opt :: "real option \<Rightarrow> ieee" where
  "of_opt None = NaN"
| "of_opt (Some v) = Fin v"

fun ieee_neg :: "ieee \<Rightarrow> ieee" where
  "ieee_neg (Fin a) = Fin (- a)"
| "ieee_neg PInf = NInf"
| "ieee_neg NInf = PInf"
| "ieee_neg NaN = NaN"

fun ieee_add :: "ieee \<Rightarrow> ieee \<Rightarrow> ieee" where
  "ieee_add NaN b = NaN"
| "ieee_add a NaN = NaN"
| "ieee_add (Fin a) (Fin b) = Fin (a + b)"
| "ieee_add PInf NInf = NaN"
| "ieee_add NInf PInf = NaN"
| "ieee_add PInf b = PInf"
| "ieee_add a PInf = PInf"
| "ieee_add NInf b = NInf"
| "ieee_add a NInf = NInf"

definition ieee_sub :: "ieee \<Rightarrow> ieee \<Rightarrow> ieee" where
  "ieee_sub a b = ieee_add a (ieee_neg b)"

fun inf_times :: "ieee \<Rightarrow> real \<Rightarrow> ieee" where
  "inf_times i a = (if 0 < a then i else if a < 0 then ieee_neg i else NaN)"

fun ieee_mul :: "ieee \<Rightarrow> ieee \<Rightarrow> ieee" where
  "ieee_mul NaN b = NaN"
| "ieee_mul a NaN = NaN"
| "ieee_mul (Fin a) (Fin b) = Fin (a * b)"
| "ieee_mul (Fin a) b = inf_times b a"
| "ieee_mul a (Fin b) = inf_times a b"
| "ieee_mul PInf b = b"
| "ieee_mul NInf b = ieee_neg b"

fun ieee_div :: "ieee \<Rightarrow> ieee \<Rightarrow> ieee" where
  "ieee_div NaN b = NaN"
| "ieee_div a NaN = NaN"
| "ieee_div (Fin a) (Fin b) =
     (if b \<noteq> 0 then Fin (a / b)
      else if 0 < a then PInf else if a < 0 then NInf else NaN)"
| "ieee_div (Fin a) b = Fin 0"
| "ieee_div a (Fin b) = (if 0 \<le> b then a else ieee_neg a)"
| "ieee_div a b = NaN"

fun ieee_log :: "ieee \<Rightarrow> ieee" where
  "ieee_log (Fin r) = (if 0 < r then Fin (ln r) else if r = 0 then NInf else NaN)"
| "ieee_log PInf = PInf"
| "ieee_log NInf = NaN"
| "ieee_log NaN = NaN"

text \<open>\<open>a <= b\<close> on floats (false when a side is NaN), and \<open>np.maximum\<close> on
  values that are not NaN.\<close>

fun ieee_le :: "ieee \<Rightarrow> ieee \<Rightarrow> bool" where
  "ieee_le NaN b = False"
| "ieee_le a NaN = False"
| "ieee_le (Fin a) (Fin b) = (a \<le> b)"
| "ieee_le NInf b = True"
| "ieee_le a PInf = True"
| "ieee_le a b = False"

definition ieee_max :: "ieee \<Rightarrow> ieee \<Rightarrow> ieee" where
  "ieee_max a b = (if ieee_le a b then b else a)"

text \<open>\<open>s.fillna(v)\<close>: only NaN is filled, an infinity stays.\<close>

definition fillna_ieee :: "ieee \<Rightarrow> ieee list \<Rightarrow> ieee list" where
  "fillna_ieee v xs = map (\<lambda>x. if x = NaN then v else x) xs"

text \<open>
  numpy's \<open>np.cumprod\<close> and \<open>np.maximum.accumulate\<close>: the first value, then each
  value combined with the result before it.
\<close>

fun accumulate_from :: "('a \<Rightarrow> 'a \<Rightarrow> 'a) \<Rightarrow> 'a \<Rightarrow> 'a list \<Rightarrow> 'a list" where
  "accumulate_from f acc [] = []"
| "accumulate_from f acc (x # xs) = f acc x # accumulate_from f (f acc x) xs"

fun accumulate :: "('a \<Rightarrow> 'a \<Rightarrow> 'a) \<Rightarrow> 'a list \<Rightarrow> 'a list" where
  "accumulate f [] = []"
| "accumulate f (x # xs) = x # accumulate_from f x xs"

text \<open>
  \<open>s.cumprod()\<close> and \<open>s.cummax()\<close> of pandas (\<open>skipna=True\<close>): a NaN of the
  input is replaced for the accumulation (by 1 for the product, by \<open>-inf\<close> for the
  maximum) and is NaN again in the output.
\<close>

definition na_accum :: "(ieee \<Rightarrow> ieee \<Rightarrow> ieee) \<Rightarrow> ieee \<Rightarrow> ieee list \<Rightarrow> ieee list" where
  "na_accum f fill xs =
     map2 (\<lambda>x r. if x = NaN then NaN else r) xs (accumulate f (fillna_ieee fill xs))"

definition cumprod_ieee :: "ieee list \<Rightarrow> ieee list" where
  "cumprod_ieee xs = na_accum ieee_mul (Fin 1) xs"

definition cummax_ieee :: "ieee list \<Rightarrow> ieee list" where
  "cummax_ieee xs = na_accum ieee_max NInf xs"

text \<open>
  The float columns of the table. The integer columns \<open>position\<close> and the columns
  \<open>position_change\<close> and \<open>trade_cost\<close> never hold an infinity and are those of
  \<open>run_core\<close>.
\<close>

record ieee_frame =
  market_return_ieee :: "ieee list"
  strategy_return_ieee :: "ieee list"
  cumulative_market_ieee :: "ieee list"
  cumulative_strategy_ieee :: "ieee list"
  strategy_peak_ieee :: "ieee list"
  drawdown_ieee :: "ieee list"

definition run_core_ieee :: "BacktestConfig \<Rightarrow> (real option \<times> int) list \<Rightarrow> ieee_frame" where
  "run_core_ieee config df =
     (let price_c = map fst df;
          market_return_c =
            map2 (\<lambda>p q. ieee_log (ieee_div (of_opt p) (of_opt q))) price_c (shift1 price_c);
          position_c = position (run_core config df);
          trade_cost_c = trade_cost (run_core config df);
          strategy_return_c =
            map2 (\<lambda>(pos, mr) cost. ieee_sub (ieee_mul (Fin (real_of_int pos)) mr) (Fin cost))
              (zip position_c market_return_c) trade_cost_c;
          cumulative_market_c =
            cumprod_ieee (map (ieee_add (Fin 1)) (fillna_ieee (Fin 0) market_return_c));
          cumulative_strategy_c =
            cumprod_ieee (map (ieee_add (Fin 1)) (fillna_ieee (Fin 0) strategy_return_c));
          strategy_peak_c = cummax_ieee cumulative_strategy_c;
          drawdown_c =
            map2 (\<lambda>c p. ieee_sub (ieee_div c p) (Fin 1)) cumulative_strategy_c strategy_peak_c
      in \<lparr>market_return_ieee = market_return_c, strategy_return_ieee = strategy_return_c,
          cumulative_market_ieee = cumulative_market_c,
          cumulative_strategy_ieee = cumulative_strategy_c,
          strategy_peak_ieee = strategy_peak_c, drawdown_ieee = drawdown_c\<rparr>)"

text \<open>
  \<open>run\<close> with these columns: \<open>n_days\<close> counts the strategy returns that are not
  NaN, the infinite ones included.
\<close>

definition run_ieee ::
  "BacktestConfig \<Rightarrow> (real option \<times> int) list \<Rightarrow> py_error + ieee_frame" where
  "run_ieee config df =
     (if length df < 2 then Inl ValueError
      else if filter (\<lambda>x. x \<noteq> NaN) (strategy_return_ieee (run_core_ieee config df)) \<noteq> []
              \<and> trading_days_per_year config = 0
      then Inl ZeroDivisionError
      else Inr (run_core_ieee config df))"

section \<open>Facts about the rolling percentile\<close>

lemma nan_less_irrefl: "\<not> nan_less v v"
  by (cases v) simp_all

lemma collect_map_Inr: "collect (map Inr vs) = Inr vs"
  by (induction vs) simp_all

lemma collect_Inr_D: "collect rs = Inr vs \<Longrightarrow> rs = map Inr vs"
proof (induction rs arbitrary: vs)
  case Nil
  then show ?case by simp
next
  case (Cons r rs)
  show ?case
  proof (cases r)
    case (Inl e)
    with Cons.prems show ?thesis by simp
  next
    case (Inr v)
    show ?thesis
    proof (cases "collect rs")
      case (Inl e)
      with Cons.prems \<open>r = Inr v\<close> show ?thesis by simp
    next
      case r2: (Inr ws)
      with Cons.prems \<open>r = Inr v\<close> have "vs = v # ws" by simp
      moreover from r2 have "rs = map Inr ws" by (rule Cons.IH)
      ultimately show ?thesis using \<open>r = Inr v\<close> by simp
    qed
  qed
qed

lemma collect_Inr_iff: "collect rs = Inr vs \<longleftrightarrow> rs = map Inr vs"
  using collect_Inr_D collect_map_Inr by blast

lemma py_int_half: "0 \<le> w \<Longrightarrow> py_int (real_of_int w * 0.5) = w div 2"
proof -
  assume w: "0 \<le> w"
  have "real_of_int w * 0.5 = real_of_int w / real_of_int 2" by simp
  then have "\<lfloor>real_of_int w * 0.5\<rfloor> = w div 2"
    using floor_divide_of_int_eq [of w 2, where ?'a = real] by simp
  then show ?thesis using w by (simp add: py_int_def)
qed

lemma length_window_at: "i < length xs \<Longrightarrow> length (window_at w xs i) = min (Suc i) w"
  by (auto simp: window_at_def min_def)

lemma window_at_nonempty: "i < length xs \<Longrightarrow> 0 < w \<Longrightarrow> window_at w xs i \<noteq> []"
  using length_window_at [of i xs w] by (cases "window_at w xs i") auto

lemma last_window_at:
  assumes "i < length xs" and "0 < w"
  shows "last (window_at w xs i) = xs ! i"
proof -
  have "take (Suc i) xs \<noteq> []" using assms by (cases xs) auto
  moreover have "Suc i - w < length (take (Suc i) xs)" using assms by simp
  ultimately have "last (window_at w xs i) = last (take (Suc i) xs)"
    by (simp add: window_at_def)
  also have "\<dots> = xs ! i"
    using assms by (simp add: take_Suc_conv_app_nth)
  finally show ?thesis .
qed

lemma rank_le:
  assumes "x \<noteq> []"
  shows "length (filter (\<lambda>v. nan_less v (last x)) x) \<le> length x - 1"
proof -
  have x: "x = butlast x @ [last x]" using assms by simp
  have "filter (\<lambda>v. nan_less v (last x)) x = filter (\<lambda>v. nan_less v (last x)) (butlast x @ [last x])"
    using x by simp
  also have "\<dots> = filter (\<lambda>v. nan_less v (last x)) (butlast x)"
    by (simp add: nan_less_irrefl)
  finally have "filter (\<lambda>v. nan_less v (last x)) x = filter (\<lambda>v. nan_less v (last x)) (butlast x)" .
  moreover have "length (filter (\<lambda>v. nan_less v (last x)) (butlast x)) \<le> length (butlast x)"
    by (rule length_filter_le)
  ultimately show ?thesis by simp
qed

lemma calc_pct_bounds:
  assumes "calc_pct w x = Inr (Some v)"
  shows "0 \<le> v \<and> v \<le> 1"
proof -
  from assms have ne: "x \<noteq> []"
    by (auto simp: calc_pct_def split: if_splits)
  from assms ne have v: "v = (if length x > 1
      then real (length (filter (\<lambda>u. nan_less u (last x)) x)) / real (length x - 1) else 0.5)"
    by (auto simp: calc_pct_def Let_def split: if_splits)
  show ?thesis
  proof (cases "length x > 1")
    case True
    then have "real (length (filter (\<lambda>u. nan_less u (last x)) x)) \<le> real (length x - 1)"
      using rank_le [OF ne] by simp
    then show ?thesis using v True by (simp add: divide_le_eq_1)
  next
    case False
    then show ?thesis using v by simp
  qed
qed

lemma rolling_apply_Inr:
  assumes "rolling_apply w m f xs = Inr out"
  shows "0 \<le> w \<and> 0 \<le> m \<and> m \<le> w \<and> length out = length xs \<and>
    (\<forall>i<length xs. (if m \<le> int (count_valid (window_at (nat w) xs i))
        then f (window_at (nat w) xs i) else Inr None) = Inr (out ! i))"
proof -
  let ?g = "\<lambda>i. let x = window_at (nat w) xs i
             in if m \<le> int (count_valid x) then f x else Inr None"
  from assms have wm: "0 \<le> w" "0 \<le> m" "m \<le> w"
    by (auto simp: rolling_apply_def split: if_splits)
  with assms have "collect (map ?g [0..<length xs]) = Inr out"
    by (simp add: rolling_apply_def)
  then have eq: "map ?g [0..<length xs] = map Inr out"
    by (simp add: collect_Inr_iff)
  from arg_cong [OF eq, of length] have len: "length out = length xs" by simp
  have "\<forall>i<length xs. ?g i = Inr (out ! i)"
  proof (intro allI impI)
    fix i assume i: "i < length xs"
    have "map ?g [0..<length xs] ! i = map Inr out ! i" using eq by simp
    then show "?g i = Inr (out ! i)" using i len by simp
  qed
  then show ?thesis using wm len by (simp add: Let_def)
qed

lemma rolling_apply_total:
  assumes "0 \<le> m" and "m \<le> w"
    and "\<forall>i<length xs. \<exists>r. (if m \<le> int (count_valid (window_at (nat w) xs i))
        then f (window_at (nat w) xs i) else Inr None) = Inr r"
  shows "\<exists>out. rolling_apply w m f xs = Inr out"
proof -
  let ?g = "\<lambda>i. if m \<le> int (count_valid (window_at (nat w) xs i))
        then f (window_at (nat w) xs i) else Inr None"
  have "\<forall>i<length xs. ?g i = Inr (projr (?g i))"
  proof (intro allI impI)
    fix i assume "i < length xs"
    with assms(3) obtain r where "?g i = Inr r" by blast
    then show "?g i = Inr (projr (?g i))" by simp
  qed
  then have "map ?g [0..<length xs] = map Inr (map (\<lambda>i. projr (?g i)) [0..<length xs])"
    by simp
  then have "collect (map ?g [0..<length xs]) = Inr (map (\<lambda>i. projr (?g i)) [0..<length xs])"
    by (simp only: collect_Inr_iff)
  then show ?thesis using assms(1,2) by (simp add: rolling_apply_def Let_def)
qed

lemma window_at_map: "window_at w (map f xs) i = map f (window_at w xs i)"
  by (simp add: window_at_def take_map drop_map)

lemma count_valid_map_Some: "count_valid (map Some ys) = length ys"
  by (induction ys) (simp_all add: count_valid_def)

lemma count_valid_le: "count_valid x \<le> length x"
  by (simp add: count_valid_def)

lemma calc_pct_nonempty:
  "x \<noteq> [] \<Longrightarrow> \<exists>r. calc_pct w x = Inr r"
  by (simp add: calc_pct_def Let_def)

lemma rolling_percentile_total:
  assumes "1 \<le> window"
  shows "\<exists>out. rolling_percentile series window = Inr out"
proof -
  have m: "py_int (real_of_int window * 0.5) = window div 2"
    by (rule py_int_half) (use assms in linarith)
  have "\<forall>i<length series. \<exists>r.
      (if window div 2 \<le> int (count_valid (window_at (nat window) series i))
       then calc_pct window (window_at (nat window) series i) else Inr None) = Inr r"
  proof (intro allI impI)
    fix i assume "i < length series"
    then have "window_at (nat window) series i \<noteq> []"
      using assms by (simp add: window_at_nonempty)
    then show "\<exists>r. (if window div 2 \<le> int (count_valid (window_at (nat window) series i))
       then calc_pct window (window_at (nat window) series i) else Inr None) = Inr r"
      using calc_pct_nonempty by simp
  qed
  moreover have "0 \<le> window div 2" "window div 2 \<le> window" using assms by auto
  ultimately show ?thesis
    unfolding rolling_percentile_def m by (intro rolling_apply_total) 
qed

lemma rolling_percentile_at:
  assumes "rolling_percentile series window = Inr out" and "i < length series"
  shows "(if py_int (real_of_int window * 0.5) \<le> int (count_valid (window_at (nat window) series i))
       then calc_pct window (window_at (nat window) series i) else Inr None) = Inr (out ! i)"
  using rolling_apply_Inr [OF assms(1) [unfolded rolling_percentile_def]] assms(2) by blast

lemma rolling_percentile_length:
  assumes "rolling_percentile series window = Inr out"
  shows "length out = length series"
  using rolling_apply_Inr [OF assms [unfolded rolling_percentile_def]] by blast

lemma ceiling_half: "\<lceil>real_of_int w / 2\<rceil> = (w + 1) div 2"
proof -
  have "\<lceil>real_of_int w / real_of_int 2\<rceil> = - (- w div 2)"
    by (rule ceiling_divide_eq_div)
  then show ?thesis by simp
qed

lemma cutoff_arith:
  assumes "0 \<le> (w::int)"
  shows "(\<not> (w div 2 \<le> int n \<and> \<not> real n < real_of_int w * 0.5)) = (n < nat ((w + 1) div 2))"
proof -
  have "(real n < real_of_int w * 0.5) = (2 * int n < w)"
  proof -
    have "(real n < real_of_int w * 0.5) = (real_of_int (2 * int n) < real_of_int w)"
      by simp linarith
    then show ?thesis by (simp only: of_int_less_iff)
  qed
  then show ?thesis using assms by auto
qed

lemma guard_arith:
  "(real n < real_of_int w * 0.5) = (n < nat ((w + 1) div 2))"
proof -
  have "(real n < real_of_int w * 0.5) = (real_of_int (2 * int n) < real_of_int w)"
    by simp linarith
  also have "\<dots> = (2 * int n < w)" by (simp only: of_int_less_iff)
  also have "\<dots> = (n < nat ((w + 1) div 2))" by linarith
  finally show ?thesis .
qed

section \<open>Facts about the hysteresis scan\<close>

lemma beta_scan_constant_flat:
  assumes "long_entry params \<le> p" and "p \<le> short_entry params"
  shows "map row_signal (beta_scan params FLAT (map (\<lambda>d. (d, Some p)) dates))
    = replicate (length dates) FLAT"
  using assms by (induction dates) simp_all

section \<open>Facts about the columns\<close>

lemma length_shift1: "length (shift1 xs) = length xs"
  by (simp add: shift1_def)

lemma shift1_nth_0: "xs \<noteq> [] \<Longrightarrow> shift1 xs ! 0 = None"
  by (cases xs) (simp_all add: shift1_def)

lemma shift1_nth_Suc: "Suc t < length xs \<Longrightarrow> shift1 xs ! Suc t = xs ! t"
  by (simp add: shift1_def)

lemma length_fillna: "length (fillna v xs) = length xs"
  by (simp add: fillna_def)

lemma length_diff: "length (diff xs) = length xs"
  by (simp add: diff_def length_shift1)

lemma diff_nth_0: "xs \<noteq> [] \<Longrightarrow> diff xs ! 0 = None"
  by (cases xs) (simp_all add: diff_def shift1_def)

lemma diff_nth_Suc: "Suc t < length xs \<Longrightarrow> diff xs ! Suc t = Some (xs ! Suc t - xs ! t)"
  by (simp add: diff_def length_shift1 shift1_nth_Suc)

lemma length_cumprod_from: "length (cumprod_from acc xs) = length xs"
  by (induction xs arbitrary: acc) simp_all

lemma length_cummax_from: "length (cummax_from m xs) = length xs"
  by (induction xs arbitrary: m) simp_all

lemma length_cummax: "length (cummax xs) = length xs"
  by (cases xs) (simp_all add: length_cummax_from)

lemma cummax_from_nth:
  "t < length xs \<Longrightarrow> cummax_from m xs ! t = max m (Max (set (take (Suc t) xs)))"
proof (induction xs arbitrary: m t)
  case Nil
  then show ?case by simp
next
  case (Cons x xs)
  show ?case
  proof (cases t)
    case 0
    then show ?thesis by simp
  next
    case (Suc k)
    with Cons.prems have k: "k < length xs" by simp
    then have ne: "set (take (Suc k) xs) \<noteq> {}" by (cases xs) auto
    have "cummax_from m (x # xs) ! t = max (max m x) (Max (set (take (Suc k) xs)))"
      using Suc Cons.IH [OF k] by simp
    also have "\<dots> = max m (Max (insert x (set (take (Suc k) xs))))"
      using ne by (simp add: max.assoc)
    finally show ?thesis using Suc by simp
  qed
qed

lemma cummax_nth:
  assumes "t < length xs"
  shows "cummax xs ! t = Max (set (take (Suc t) xs))"
proof (cases xs)
  case Nil
  with assms show ?thesis by simp
next
  case (Cons x ys)
  show ?thesis
  proof (cases t)
    case 0
    with Cons show ?thesis by simp
  next
    case (Suc k)
    with assms Cons have k: "k < length ys" by simp
    then have ne: "set (take (Suc k) ys) \<noteq> {}" by (cases ys) auto
    show ?thesis using Cons Suc cummax_from_nth [OF k, of x] ne by simp
  qed
qed


section \<open>Facts about the backtest\<close>

lemma run_Inr:
  assumes "run config df = Inr res"
  shows "res = run_core config df \<and> 2 \<le> length df"
  using assms by (auto simp: run_def split: if_splits sum.splits)

lemma position_run_core:
  "position (run_core config df) = fillna 0 (shift1 (map Some (map snd df)))"
  by (simp add: run_core_def Let_def)

lemma signal_run_core: "signal (run_core config df) = map snd df"
  by (simp add: run_core_def Let_def)

lemma length_position: "length (position (run_core config df)) = length df"
  by (simp add: position_run_core length_fillna length_shift1)

lemma position_nth_0: "df \<noteq> [] \<Longrightarrow> position (run_core config df) ! 0 = 0"
  by (simp add: position_run_core fillna_def length_shift1 shift1_nth_0)

lemma position_nth_Suc:
  "Suc t < length df \<Longrightarrow> position (run_core config df) ! Suc t = snd (df ! t)"
  by (simp add: position_run_core fillna_def length_shift1 shift1_nth_Suc)

lemma position_change_run_core:
  "position_change (run_core config df)
     = fillna 0 (map (map_option (\<lambda>d. \<bar>real_of_int d\<bar>)) (diff (position (run_core config df))))"
  by (simp add: run_core_def Let_def)

lemma length_position_change: "length (position_change (run_core config df)) = length df"
  by (simp add: position_change_run_core length_fillna length_diff length_position)

lemma position_change_nth_0: "df \<noteq> [] \<Longrightarrow> position_change (run_core config df) ! 0 = 0"
proof -
  assume ne: "df \<noteq> []"
  then have "position (run_core config df) \<noteq> []"
    using length_position [of config df] by auto
  then have "diff (position (run_core config df)) ! 0 = None" by (rule diff_nth_0)
  then show ?thesis
    using ne by (simp add: position_change_run_core fillna_def length_diff length_position)
qed

lemma position_change_nth_Suc:
  assumes "Suc t < length df"
  shows "position_change (run_core config df) ! Suc t
    = \<bar>real_of_int (position (run_core config df) ! Suc t - position (run_core config df) ! t)\<bar>"
proof -
  have "Suc t < length (position (run_core config df))"
    using assms by (simp add: length_position)
  then have "diff (position (run_core config df)) ! Suc t
      = Some (position (run_core config df) ! Suc t - position (run_core config df) ! t)"
    by (rule diff_nth_Suc)
  then show ?thesis
    using assms by (simp add: position_change_run_core fillna_def length_diff length_position)
qed

lemma trade_cost_run_core:
  "trade_cost (run_core config df)
     = map (\<lambda>c. c * (commission_rate config + slippage_rate config))
         (position_change (run_core config df))"
  by (simp add: run_core_def Let_def)

lemma length_market_return: "length (market_return (run_core config df)) = length df"
  by (simp add: run_core_def Let_def length_shift1)

lemma market_return_nth_0: "df \<noteq> [] \<Longrightarrow> market_return (run_core config df) ! 0 = None"
proof -
  assume ne: "df \<noteq> []"
  then have "shift1 (map fst df) ! 0 = None" by (simp add: shift1_nth_0)
  then show ?thesis
    using ne by (cases "fst (df ! 0)") (simp_all add: run_core_def Let_def length_shift1)
qed

lemma strategy_return_run_core:
  "strategy_return (run_core config df)
     = map2 (\<lambda>(pos, mr) cost. map_option (\<lambda>m. real_of_int pos * m - cost) mr)
         (zip (position (run_core config df)) (market_return (run_core config df)))
         (trade_cost (run_core config df))"
  by (simp add: run_core_def Let_def)

lemma length_strategy_return: "length (strategy_return (run_core config df)) = length df"
  by (simp add: strategy_return_run_core trade_cost_run_core length_position
      length_market_return length_position_change)

lemma strategy_return_nth:
  assumes "t < length df"
  shows "strategy_return (run_core config df) ! t
    = map_option (\<lambda>m. real_of_int (position (run_core config df) ! t) * m
                        - trade_cost (run_core config df) ! t)
        (market_return (run_core config df) ! t)"
  using assms
  by (simp add: strategy_return_run_core trade_cost_run_core length_position
      length_market_return length_position_change)

lemma cumulative_strategy_run_core:
  "cumulative_strategy (run_core config df)
     = cumprod (map (\<lambda>r. 1 + r) (fillna 0 (strategy_return (run_core config df))))"
  by (simp add: run_core_def Let_def)

lemma length_cumulative_strategy: "length (cumulative_strategy (run_core config df)) = length df"
  by (simp add: cumulative_strategy_run_core cumprod_def length_cumprod_from length_fillna
      length_strategy_return)

lemma cumulative_strategy_nth_0:
  assumes "df \<noteq> []"
  shows "cumulative_strategy (run_core config df) ! 0 = 1"
proof -
  have "strategy_return (run_core config df) ! 0 = None"
    using assms strategy_return_nth [of 0 df config] market_return_nth_0 [OF assms, of config]
    by simp
  moreover have "strategy_return (run_core config df) \<noteq> []"
    using assms length_strategy_return [of config df] by auto
  ultimately show ?thesis
    by (cases "strategy_return (run_core config df)")
      (simp_all add: cumulative_strategy_run_core cumprod_def fillna_def)
qed

lemma strategy_peak_run_core:
  "strategy_peak (run_core config df) = cummax (cumulative_strategy (run_core config df))"
  by (simp add: run_core_def Let_def)

lemma drawdown_run_core:
  "drawdown (run_core config df)
     = map2 (\<lambda>c p. c / p - 1) (cumulative_strategy (run_core config df))
         (strategy_peak (run_core config df))"
  by (simp add: run_core_def Let_def)

lemma drawdown_nth:
  assumes "t < length df"
  shows "drawdown (run_core config df) ! t
    = cumulative_strategy (run_core config df) ! t
        / Max (set (take (Suc t) (cumulative_strategy (run_core config df)))) - 1"
proof -
  have t: "t < length (cumulative_strategy (run_core config df))"
    using assms by (simp add: length_cumulative_strategy)
  then show ?thesis
    by (simp add: drawdown_run_core strategy_peak_run_core length_cummax cummax_nth)
qed

lemma example_core:
  "run_core default_config
     [(Some 100, 1), (Some 100, -1), (Some 100, 0)]
   = \<lparr>price = [Some 100, Some 100, Some 100], signal = [1, -1, 0],
      market_return = [None, Some 0, Some 0], position = [0, 1, -1],
      position_change = [0, 1, 2], trade_cost = [0, 0.0015, 0.003],
      strategy_return = [None, Some (-0.0015), Some (-0.003)],
      cumulative_market = [1, 1, 1],
      cumulative_strategy = [1, 0.9985, 0.9985 * 0.997],
      strategy_peak = [1, 1, 1],
      drawdown = [0, -0.0015, 0.9985 * 0.997 - 1]\<rparr>"
  by (simp add: run_core_def default_config_def Let_def shift1_def fillna_def diff_def
      cumprod_def)

lemma example_run:
  "run default_config
     [(Some 100, 1), (Some 100, -1), (Some 100, 0)]
   = Inr (run_core default_config
     [(Some 100, 1), (Some 100, -1), (Some 100, 0)])"
  by (simp add: run_def metrics_years_def example_core dropna_def default_config_def)

lemma run_total:
  assumes "2 \<le> length df" and "trading_days_per_year config \<noteq> 0"
  shows "run config df = Inr (run_core config df)"
  using assms by (simp add: run_def metrics_years_def Let_def)

lemma metrics_years_zero_division:
  assumes "trading_days_per_year config = 0" and "dropna (strategy_return df) \<noteq> []"
  shows "metrics_years config df = Inl ZeroDivisionError"
  using assms by (simp add: metrics_years_def Let_def)

lemma run_zero_trading_days:
  "run \<lparr>commission_rate = 0.001, slippage_rate = 0.0005, risk_free_rate = 0.02,
       trading_days_per_year = 0\<rparr>
     [(Some 100, 1), (Some 100, -1), (Some 100, 0)] = Inl ZeroDivisionError"
  by (simp add: run_def metrics_years_def Let_def run_core_def shift1_def fillna_def diff_def
      cumprod_def dropna_def)

section \<open>Facts about the float columns\<close>

text \<open>
  Where no price is exactly zero the columns with infinities are the finite-valued
  columns of \<open>run_core\<close>.
\<close>

lemma zero_price_core:
  "run_core_ieee default_config [(Some 100, 1), (Some 0, -1), (Some 100, 0)]
   = \<lparr>market_return_ieee = [NaN, NInf, PInf],
      strategy_return_ieee = [NaN, NInf, NInf],
      cumulative_market_ieee = [Fin 1, NInf, NInf],
      cumulative_strategy_ieee = [Fin 1, NInf, PInf],
      strategy_peak_ieee = [Fin 1, Fin 1, PInf],
      drawdown_ieee = [Fin 0, NInf, NaN]\<rparr>"
  by (simp add: run_core_ieee_def Let_def shift1_def fillna_ieee_def
      cumprod_ieee_def cummax_ieee_def na_accum_def ieee_sub_def ieee_max_def
      run_core_def default_config_def fillna_def diff_def cumprod_def)

lemma log_ratio_agrees:
  assumes "p \<noteq> Some 0" and "q \<noteq> Some 0"
  shows "ieee_log (ieee_div (of_opt p) (of_opt q)) = of_opt (np_log (fdiv p q))"
proof (cases p)
  case None
  then show ?thesis by simp
next
  case (Some a)
  show ?thesis
  proof (cases q)
    case None
    with Some show ?thesis by simp
  next
    case b: (Some b)
    with assms Some have "a \<noteq> 0" "b \<noteq> 0" by simp_all
    then have "a / b \<noteq> 0" by simp
    then show ?thesis using Some b \<open>b \<noteq> 0\<close> by simp
  qed
qed

lemma return_agrees:
  "ieee_sub (ieee_mul (Fin a) (of_opt mr)) (Fin c) = of_opt (map_option (\<lambda>m. a * m - c) mr)"
  by (cases mr) (simp_all add: ieee_sub_def)

lemma set_shift1: "set (shift1 xs) \<subseteq> insert None (set xs)"
proof -
  have "set (take (length xs) (None # xs)) \<subseteq> set (None # xs)" by (rule set_take_subset)
  then show ?thesis by (simp add: shift1_def)
qed

lemma fillna_ieee_of_opt: "fillna_ieee (Fin 0) (map of_opt xs) = map Fin (fillna 0 xs)"
  by (induction xs) (auto simp: fillna_ieee_def fillna_def split: option.splits)

lemma fillna_ieee_Fin: "fillna_ieee v (map Fin ys) = map Fin ys"
  by (induction ys) (simp_all add: fillna_ieee_def)

lemma length_accumulate_from: "length (accumulate_from f a xs) = length xs"
  by (induction xs arbitrary: a) simp_all

lemma length_accumulate: "length (accumulate f xs) = length xs"
  by (cases xs) (simp_all add: length_accumulate_from)

lemma accumulate_from_Fin:
  assumes "\<And>a b. F (Fin a) (Fin b) = Fin (f a b)"
  shows "accumulate_from F (Fin a) (map Fin ys) = map Fin (accumulate_from f a ys)"
  by (induction ys arbitrary: a) (simp_all add: assms)

lemma accumulate_Fin:
  assumes "\<And>a b. F (Fin a) (Fin b) = Fin (f a b)"
  shows "accumulate F (map Fin ys) = map Fin (accumulate f ys)"
  by (cases ys) (simp_all add: accumulate_from_Fin [where F = F and f = f, OF assms])

lemma mask_Fin:
  "length zs = length ys \<Longrightarrow>
     map2 (\<lambda>x r. if x = NaN then NaN else r) (map Fin ys) zs = zs"
  by (induction ys zs rule: list_induct2') simp_all

lemma na_accum_Fin:
  assumes "\<And>a b. F (Fin a) (Fin b) = Fin (f a b)"
  shows "na_accum F fill (map Fin ys) = map Fin (accumulate f ys)"
proof -
  have "length (map Fin (accumulate f ys)) = length ys" by (simp add: length_accumulate)
  then show ?thesis
    by (simp only: na_accum_def fillna_ieee_Fin
        accumulate_Fin [where F = F and f = f, OF assms] mask_Fin)
qed

lemma accumulate_from_times: "accumulate_from (*) a ys = cumprod_from a ys"
  by (induction ys arbitrary: a) simp_all

lemma accumulate_times: "accumulate (*) ys = cumprod ys"
  by (cases ys) (simp_all add: cumprod_def accumulate_from_times)

lemma accumulate_from_max: "accumulate_from max m ys = cummax_from m ys"
  by (induction ys arbitrary: m) simp_all

lemma accumulate_max: "accumulate max ys = cummax ys"
  by (cases ys) (simp_all add: accumulate_from_max)

lemma cumprod_ieee_Fin: "cumprod_ieee (map Fin ys) = map Fin (cumprod ys)"
  unfolding cumprod_ieee_def
  by (subst na_accum_Fin [where f = "(*)"]) (simp_all add: accumulate_times)

lemma cummax_ieee_Fin: "cummax_ieee (map Fin ys) = map Fin (cummax ys)"
  unfolding cummax_ieee_def
  by (subst na_accum_Fin [where f = max]) (auto simp: accumulate_max ieee_max_def max_def)

lemma market_return_agrees:
  assumes "\<forall>r\<in>set df. fst r \<noteq> Some 0"
  shows "market_return_ieee (run_core_ieee config df)
    = map of_opt (market_return (run_core config df))"
proof -
  have "\<forall>(p, q) \<in> set (zip (map fst df) (shift1 (map fst df))).
      ieee_log (ieee_div (of_opt p) (of_opt q)) = of_opt (np_log (fdiv p q))"
  proof (clarify)
    fix p q assume pq: "(p, q) \<in> set (zip (map fst df) (shift1 (map fst df)))"
    then have "p \<in> set (map fst df)" by (rule set_zip_leftD)
    then have p: "p \<noteq> Some 0" using assms by auto
    from pq have "q \<in> set (shift1 (map fst df))" by (rule set_zip_rightD)
    then have "q \<in> insert None (set (map fst df))" using set_shift1 by blast
    then have q: "q \<noteq> Some 0" using assms by auto
    show "ieee_log (ieee_div (of_opt p) (of_opt q)) = of_opt (np_log (fdiv p q))"
      using p q by (rule log_ratio_agrees)
  qed
  then show ?thesis
    by (auto simp: run_core_ieee_def run_core_def Let_def)
qed

lemma strategy_return_agrees:
  assumes "\<forall>r\<in>set df. fst r \<noteq> Some 0"
  shows "strategy_return_ieee (run_core_ieee config df)
    = map of_opt (strategy_return (run_core config df))"
proof -
  have "strategy_return_ieee (run_core_ieee config df)
      = map2 (\<lambda>(pos, mr) cost. ieee_sub (ieee_mul (Fin (real_of_int pos)) mr) (Fin cost))
          (zip (position (run_core config df)) (market_return_ieee (run_core_ieee config df)))
          (trade_cost (run_core config df))"
    by (simp add: run_core_ieee_def Let_def)
  also have "\<dots> = map of_opt (strategy_return (run_core config df))"
    unfolding market_return_agrees [OF assms] strategy_return_run_core
    by (simp add: zip_map2 zip_map1 case_prod_unfold return_agrees)
  finally show ?thesis .
qed

lemma cumulative_strategy_agrees:
  assumes "\<forall>r\<in>set df. fst r \<noteq> Some 0"
  shows "cumulative_strategy_ieee (run_core_ieee config df)
    = map Fin (cumulative_strategy (run_core config df))"
proof -
  have "cumulative_strategy_ieee (run_core_ieee config df)
      = cumprod_ieee (map (ieee_add (Fin 1))
          (fillna_ieee (Fin 0) (strategy_return_ieee (run_core_ieee config df))))"
    by (simp add: run_core_ieee_def Let_def)
  also have "\<dots> = cumprod_ieee (map Fin (map (\<lambda>r. 1 + r)
      (fillna 0 (strategy_return (run_core config df)))))"
    by (simp add: strategy_return_agrees [OF assms] fillna_ieee_of_opt comp_def)
  also have "\<dots> = map Fin (cumulative_strategy (run_core config df))"
    by (simp only: cumprod_ieee_Fin cumulative_strategy_run_core)
  finally show ?thesis .
qed

lemma strategy_peak_agrees:
  assumes "\<forall>r\<in>set df. fst r \<noteq> Some 0"
  shows "strategy_peak_ieee (run_core_ieee config df)
    = map Fin (strategy_peak (run_core config df))"
proof -
  have "strategy_peak_ieee (run_core_ieee config df)
      = cummax_ieee (cumulative_strategy_ieee (run_core_ieee config df))"
    by (simp add: run_core_ieee_def Let_def)
  then show ?thesis
    by (simp only: cumulative_strategy_agrees [OF assms] cummax_ieee_Fin strategy_peak_run_core)
qed

lemma drawdown_finite:
  assumes "t < length df"
  shows "1 \<le> Max (set (take (Suc t) (cumulative_strategy (run_core config df))))
    \<and> drawdown (run_core config df) ! t
        = cumulative_strategy (run_core config df) ! t
            / Max (set (take (Suc t) (cumulative_strategy (run_core config df)))) - 1
    \<and> drawdown (run_core config df) ! t \<le> 0
    \<and> ((\<forall>k\<le>t. cumulative_strategy (run_core config df) ! k
                  \<le> cumulative_strategy (run_core config df) ! t)
        \<longrightarrow> drawdown (run_core config df) ! t = 0)"
proof -
  have ne: "df \<noteq> []" using assms by auto
  let ?cum = "cumulative_strategy (run_core config df)"
  let ?S = "set (take (Suc t) ?cum)"
  have len: "length ?cum = length df" by (simp add: length_cumulative_strategy)
  have fin: "finite ?S" by simp
  have first: "?cum ! 0 = 1" using ne by (simp add: cumulative_strategy_nth_0)
  have mem: "?cum ! k \<in> ?S" if "k \<le> t" for k
  proof -
    have "k < length (take (Suc t) ?cum)" using that assms len by simp
    then have "take (Suc t) ?cum ! k \<in> ?S" by (rule nth_mem)
    then show ?thesis using that by simp
  qed
  have ge1: "1 \<le> Max ?S" using Max_ge [OF fin mem [of 0]] first by simp
  have get: "?cum ! t \<le> Max ?S" using Max_ge [OF fin mem [of t]] by simp
  have d: "drawdown (run_core config df) ! t = ?cum ! t / Max ?S - 1"
    using assms by (simp add: drawdown_nth)
  have le: "drawdown (run_core config df) ! t \<le> 0"
  proof -
    have "?cum ! t / Max ?S \<le> 1" using ge1 get by (simp add: divide_le_eq_1)
    then show ?thesis using d by simp
  qed
  have top: "drawdown (run_core config df) ! t = 0"
    if h: "\<forall>k\<le>t. ?cum ! k \<le> ?cum ! t"
  proof -
    have "Max ?S = ?cum ! t"
    proof (rule Max_eqI [OF fin])
      fix y assume "y \<in> ?S"
      then obtain k where "k < length (take (Suc t) ?cum)" and "take (Suc t) ?cum ! k = y"
        by (auto simp: in_set_conv_nth)
      then have "k \<le> t" "?cum ! k = y" by simp_all
      then show "y \<le> ?cum ! t" using h by auto
    next
      show "?cum ! t \<in> ?S" using mem [of t] by simp
    qed
    then show ?thesis using d ge1 by simp
  qed
  show ?thesis using ge1 d le top by blast
qed

lemma strategy_peak_nth:
  assumes "t < length df"
  shows "strategy_peak (run_core config df) ! t
    = Max (set (take (Suc t) (cumulative_strategy (run_core config df))))"
  using assms by (simp add: strategy_peak_run_core cummax_nth length_cumulative_strategy)

lemma drawdown_agrees_nth:
  assumes "\<forall>r\<in>set df. fst r \<noteq> Some 0" and "t < length df"
  shows "drawdown_ieee (run_core_ieee config df) ! t = Fin (drawdown (run_core config df) ! t)"
proof -
  let ?cum = "cumulative_strategy (run_core config df)"
  let ?peak = "strategy_peak (run_core config df)"
  have lc: "length ?cum = length df" by (simp add: length_cumulative_strategy)
  have lp: "length ?peak = length df"
    by (simp add: strategy_peak_run_core length_cummax length_cumulative_strategy)
  have pos: "?peak ! t \<noteq> 0"
    using drawdown_finite [OF assms(2), of config] strategy_peak_nth [OF assms(2), of config]
    by simp
  have "drawdown_ieee (run_core_ieee config df)
      = map2 (\<lambda>c p. ieee_sub (ieee_div c p) (Fin 1)) (map Fin ?cum) (map Fin ?peak)"
    by (simp add: run_core_ieee_def Let_def cumulative_strategy_agrees [OF assms(1), symmetric]
        strategy_peak_agrees [OF assms(1), symmetric])
  then have "drawdown_ieee (run_core_ieee config df) ! t
      = ieee_sub (ieee_div (Fin (?cum ! t)) (Fin (?peak ! t))) (Fin 1)"
    using assms(2) lc lp by simp
  also have "\<dots> = Fin (?cum ! t / ?peak ! t - 1)" using pos by (simp add: ieee_sub_def)
  also have "?cum ! t / ?peak ! t - 1 = drawdown (run_core config df) ! t"
    using assms(2) lc lp by (simp add: drawdown_run_core)
  finally show ?thesis .
qed

lemma run_ieee_Inr:
  assumes "run_ieee config df = Inr res"
  shows "res = run_core_ieee config df \<and> 2 \<le> length df"
  using assms by (auto simp: run_ieee_def split: if_splits)


lemma cumulative_strategy_ieee_nth:
  assumes "\<forall>r\<in>set df. fst r \<noteq> Some 0" and "k < length df"
  shows "cumulative_strategy_ieee (run_core_ieee config df) ! k
    = Fin (cumulative_strategy (run_core config df) ! k)"
  using assms(2)
  by (simp add: cumulative_strategy_agrees [OF assms(1)] length_cumulative_strategy)

lemma strategy_peak_ieee_nth:
  assumes "\<forall>r\<in>set df. fst r \<noteq> Some 0" and "t < length df"
  shows "strategy_peak_ieee (run_core_ieee config df) ! t
    = Fin (Max (set (take (Suc t) (cumulative_strategy (run_core config df)))))"
proof -
  have "length (strategy_peak (run_core config df)) = length df"
    by (simp add: strategy_peak_run_core length_cummax length_cumulative_strategy)
  then show ?thesis
    using assms(2)
    by (simp add: strategy_peak_agrees [OF assms(1)] strategy_peak_nth)
qed

lemma example_run_ieee:
  "run_ieee default_config [(Some 100, 1), (Some 100, -1), (Some 100, 0)]
   = Inr (run_core_ieee default_config [(Some 100, 1), (Some 100, -1), (Some 100, 0)])"
  by (simp add: run_ieee_def default_config_def)

section \<open>Facts about the trade statistics\<close>

lemma sum_list_neg:
  "xs \<noteq> [] \<Longrightarrow> \<forall>x\<in>set xs. x < (0::real) \<Longrightarrow> sum_list xs < 0"
proof (induction xs)
  case Nil
  then show ?case by simp
next
  case (Cons x xs)
  show ?case
  proof (cases "xs = []")
    case True
    with Cons.prems show ?thesis by simp
  next
    case False
    with Cons have "sum_list xs < 0" by simp
    moreover have "x < 0" using Cons.prems by simp
    ultimately show ?thesis by simp
  qed
qed

lemma mean_losses_neg:
  assumes "filter (\<lambda>r. r < 0) tr \<noteq> []"
  shows "mean (filter (\<lambda>r. r < 0) tr) < 0"
proof -
  have "sum_list (filter (\<lambda>r. r < 0) tr) < 0"
    by (rule sum_list_neg [OF assms]) simp
  moreover have "0 < real (length (filter (\<lambda>r. r < 0) tr))" using assms by simp
  ultimately show ?thesis by (simp add: mean_def divide_neg_pos)
qed

lemma trade_returns_nonempty:
  assumes "2 \<le> length (trade_indices pc)"
  shows "trade_returns pc sr \<noteq> []"
proof -
  have "length (trade_returns pc sr) = length (trade_indices pc) - 1"
    by (simp add: trade_returns_def Let_def)
  then show ?thesis using assms by auto
qed

section \<open>Claims about the rolling percentile\<close>

text \<open>
  Scenario A of the specification, used below: window 5 over 10, 20, 30, 40, 50. The
  first two positions hold fewer than three observations; from the third on the current
  value is the largest of its window.
\<close>

lemma scenario_A:
  "rolling_percentile [Some 10, Some 20, Some 30, Some 40, Some 50] 5
     = Inr [None, None, Some 1, Some 1, Some 1]"
  by (simp add: rolling_percentile_def rolling_apply_def py_int_def calc_pct_def
      window_at_def count_valid_def upt_rec)

text \<open>
  Claim C8. Wherever \<open>rolling_percentile\<close> returns and its output at position \<open>i\<close> is
  not null, the value lies in the closed interval from 0 to 1: the number of window
  elements strictly below the current value is at most the window size minus one, and
  a window of size one gives 0.5. This holds for every series (missing values
  included) and every window length.
\<close>

theorem percentile_bounds:
  assumes "rolling_percentile series window = Inr out"
    and "i < length series"
    and "out ! i = Some v"
  shows "0 \<le> v \<and> v \<le> 1
    \<and> length (filter (\<lambda>u. nan_less u (series ! i)) (window_at (nat window) series i))
        \<le> length (window_at (nat window) series i) - 1
    \<and> (if length (window_at (nat window) series i) = 1 then v = 0.5 else True)"
proof -
  let ?x = "window_at (nat window) series i"
  from rolling_percentile_at [OF assms(1,2)] assms(3)
  have c: "calc_pct window ?x = Inr (Some v)"
    by (simp split: if_splits)
  then have ne: "?x \<noteq> []"
    by (auto simp: calc_pct_def split: if_splits)
  then have w: "0 < nat window"
    using length_window_at [OF assms(2), of "nat window"] by (cases "nat window") auto
  have l: "last ?x = series ! i" using assms(2) w by (rule last_window_at)
  have r: "length (filter (\<lambda>u. nan_less u (series ! i)) ?x) \<le> length ?x - 1"
    using rank_le [OF ne] l by simp
  have one: "length ?x = 1 \<Longrightarrow> v = 0.5"
    using c ne by (auto simp: calc_pct_def Let_def split: if_splits)
  show ?thesis using calc_pct_bounds [OF c] r one by simp
qed

theorem percentile_bounds_witness:
  "rolling_percentile [Some 10, Some 20, Some 30, Some 40, Some 50] 5
     = Inr [None, None, Some 1, Some 1, Some 1]
   \<and> (0::real) \<le> 1 \<and> (1::real) \<le> 1
   \<and> length (filter (\<lambda>u. nan_less u (Some 50))
        (window_at 5 [Some 10, Some 20, Some 30, Some 40, Some 50] 4)) \<le> 4"
proof -
  have i: "4 < length [Some 10, Some 20, Some 30, Some 40, Some (50::real)]" by simp
  have o: "[None, None, Some 1, Some 1, Some (1::real)] ! 4 = Some 1" by simp
  from percentile_bounds [OF scenario_A i o] scenario_A
  show ?thesis by (simp add: window_at_def)
qed

text \<open>
  Claim C3, as stated, fails on a series with missing values: with window length 3
  over NaN, NaN, 5 the last window holds one observation, fewer than 2, and the output
  is the number 0; over NaN, NaN, NaN the last window has three rows and the output is
  null.
\<close>

theorem min_data_missing_counterexample:
  "rolling_percentile [None, None, Some 5] 3 = Inr [None, None, Some 0]
   \<and> count_valid (window_at 3 [None, None, Some 5] 2) = 1
   \<and> nat \<lceil>real_of_int 3 / 2\<rceil> = 2
   \<and> rolling_percentile [None, None, None] 3 = Inr [None, None, None]
   \<and> length (window_at 3 [None, None, None :: real option] 2) = 3"
  by (simp add: rolling_percentile_def rolling_apply_def py_int_def calc_pct_def
      window_at_def count_valid_def upt_rec ceiling_half)

text \<open>
  Claim C3, amended. For every series (missing values included) and every window
  length \<open>W\<close> of at least 2, \<open>rolling_percentile\<close> returns an output of the same
  length, and the window ending at \<open>i\<close> has \<open>min (i + 1) W\<close> rows. The output at
  \<open>i\<close> is null exactly when the window holds fewer than \<open>int(W * 0.5)\<close>, that is
  \<open>W div 2\<close>, observations (values that are not missing: the \<open>min_periods\<close> of the
  rolling) or has fewer than the ceiling of \<open>W / 2\<close> rows (the guard
  \<open>len(x) < W * 0.5\<close>), and a number otherwise. For a window without missing values
  that is exactly when it holds fewer than the ceiling of \<open>W / 2\<close> observations,
  for even and for odd \<open>W\<close>.
\<close>

theorem min_data_rule:
  assumes "2 \<le> window"
  shows "\<exists>out. rolling_percentile series window = Inr out \<and> length out = length series
    \<and> py_int (real_of_int window * 0.5) = window div 2
    \<and> (\<forall>i<length series.
          length (window_at (nat window) series i) = min (i + 1) (nat window)
        \<and> (out ! i = None) =
            (count_valid (window_at (nat window) series i) < nat (window div 2)
             \<or> length (window_at (nat window) series i) < nat \<lceil>real_of_int window / 2\<rceil>)
        \<and> ((\<forall>v\<in>set (window_at (nat window) series i). v \<noteq> None) \<longrightarrow>
            (out ! i = None) =
              (count_valid (window_at (nat window) series i) < nat \<lceil>real_of_int window / 2\<rceil>)))"
proof -
  from assms have "1 \<le> window" by simp
  then obtain out where out: "rolling_percentile series window = Inr out"
    using rolling_percentile_total by blast
  have len: "length out = length series"
    using rolling_percentile_length [OF out] by simp
  have m: "py_int (real_of_int window * 0.5) = window div 2"
    by (rule py_int_half) (use assms in linarith)
  have every: "\<forall>i<length series.
          length (window_at (nat window) series i) = min (i + 1) (nat window)
        \<and> (out ! i = None) =
            (count_valid (window_at (nat window) series i) < nat (window div 2)
             \<or> length (window_at (nat window) series i) < nat \<lceil>real_of_int window / 2\<rceil>)
        \<and> ((\<forall>v\<in>set (window_at (nat window) series i). v \<noteq> None) \<longrightarrow>
            (out ! i = None) =
              (count_valid (window_at (nat window) series i) < nat \<lceil>real_of_int window / 2\<rceil>))"
  proof (intro allI impI)
    fix i assume i: "i < length series"
    let ?x = "window_at (nat window) series i"
    have lx: "length ?x = min (i + 1) (nat window)"
      using i by (simp add: length_window_at)
    have ne: "?x \<noteq> []" using i assms by (simp add: window_at_nonempty)
    have at: "(if window div 2 \<le> int (count_valid ?x) then calc_pct window ?x else Inr None)
        = Inr (out ! i)"
      using rolling_percentile_at [OF out i, unfolded m] .
    have "(out ! i = None)
        = (\<not> window div 2 \<le> int (count_valid ?x) \<or> real (length ?x) < real_of_int window * 0.5)"
      using at [symmetric] ne by (auto simp: calc_pct_def Let_def split: if_splits)
    also have "(\<not> window div 2 \<le> int (count_valid ?x)) = (count_valid ?x < nat (window div 2))"
      using assms by linarith
    also have "(real (length ?x) < real_of_int window * 0.5)
        = (length ?x < nat \<lceil>real_of_int window / 2\<rceil>)"
      by (simp only: guard_arith ceiling_half)
    finally have rule: "(out ! i = None)
        = (count_valid ?x < nat (window div 2) \<or> length ?x < nat \<lceil>real_of_int window / 2\<rceil>)" .
    have full: "(out ! i = None) = (count_valid ?x < nat \<lceil>real_of_int window / 2\<rceil>)"
      if all: "\<forall>v\<in>set ?x. v \<noteq> None"
    proof -
      from all have "filter (\<lambda>v. v \<noteq> None) ?x = ?x" by (auto simp: filter_id_conv)
      then have cv: "count_valid ?x = length ?x" by (simp add: count_valid_def)
      have "nat (window div 2) \<le> nat \<lceil>real_of_int window / 2\<rceil>"
        by (simp add: ceiling_half)
      then show ?thesis using rule cv by auto
    qed
    show "length ?x = min (i + 1) (nat window)
        \<and> (out ! i = None) =
            (count_valid ?x < nat (window div 2) \<or> length ?x < nat \<lceil>real_of_int window / 2\<rceil>)
        \<and> ((\<forall>v\<in>set ?x. v \<noteq> None) \<longrightarrow>
            (out ! i = None) = (count_valid ?x < nat \<lceil>real_of_int window / 2\<rceil>))"
      using lx rule full by blast
  qed
  show ?thesis
  proof (intro exI [of _ out] conjI)
    show "rolling_percentile series window = Inr out" by (rule out)
    show "length out = length series" by (rule len)
    show "py_int (real_of_int window * 0.5) = window div 2" by (rule m)
  qed (rule every)
qed

theorem min_data_rule_witness:
  "(2::int) \<le> 4 \<and>
   (\<exists>out. rolling_percentile [None, None, Some 5, Some 6] 4 = Inr out
      \<and> length out = 4 \<and> out ! 2 = None \<and> out ! 3 \<noteq> None)"
proof -
  have h: "(2::int) \<le> 4" by simp
  have r: "rolling_percentile [None, None, Some 5, Some 6] 4
      = Inr [None, None, None, Some (1 / 3)]"
    by (simp add: rolling_percentile_def rolling_apply_def py_int_def calc_pct_def
        window_at_def count_valid_def upt_rec)
  from min_data_rule [OF h, of "[None, None, Some 5, Some 6]"]
  obtain out where o: "rolling_percentile [None, None, Some 5, Some 6] 4 = Inr out"
    by (elim exE conjE)
  with r have e: "out = [None, None, None, Some (1 / 3)]" by simp
  have l: "length out = 4" and o2: "out ! 2 = None" and o3: "out ! 3 \<noteq> None"
    unfolding e by simp_all
  show ?thesis
    by (intro conjI exI [of _ out]) (rule h o l o2 o3)+
qed

text \<open>
  Claim C10, as stated, fails below the minimum-data cutoff: with window length 5 the
  window ending at the second position of 5, 5 has size two and all its values equal
  the current value, and the output there is null, not 0.
\<close>

theorem all_tied_below_cutoff_counterexample:
  "window_at (nat 5) [Some 5, Some 5] 1 = [Some 5, Some (5::real)]
   \<and> rolling_percentile [Some 5, Some 5] 5 = Inr [None, None]"
  by (simp add: rolling_percentile_def rolling_apply_def py_int_def calc_pct_def
      window_at_def count_valid_def upt_rec)

text \<open>
  Claim C10, amended. For a window of size at least 2 that passes the minimum-data
  guard (its size is at least \<open>W * 0.5\<close>) and in which every value equals the current
  value, \<open>rolling_percentile\<close> returns, the number of window elements strictly below
  the current value is 0, and the output at that position is exactly 0.
\<close>

theorem all_tied_window_zero:
  assumes "i < length series"
    and "2 \<le> length (window_at (nat window) series i)"
    and "\<forall>u\<in>set (window_at (nat window) series i). u = Some c"
    and "real_of_int window * 0.5 \<le> real (length (window_at (nat window) series i))"
  shows "\<exists>out. rolling_percentile series window = Inr out
    \<and> length (filter (\<lambda>u. nan_less u (series ! i)) (window_at (nat window) series i)) = 0
    \<and> out ! i = Some 0"
proof -
  let ?x = "window_at (nat window) series i"
  have lx: "length ?x = min (Suc i) (nat window)"
    using assms(1) by (rule length_window_at)
  with assms(2) have w: "2 \<le> window" by linarith
  then obtain out where out: "rolling_percentile series window = Inr out"
    using rolling_percentile_total [of window series] by auto
  have m: "py_int (real_of_int window * 0.5) = window div 2"
    by (rule py_int_half) (use w in linarith)
  have l: "last ?x = series ! i" using assms(1) w by (simp add: last_window_at)
  have ne: "?x \<noteq> []" using assms(2) by auto
  then have cur: "series ! i = Some c" using assms(3) l last_in_set by metis
  have rank: "filter (\<lambda>u. nan_less u (series ! i)) ?x = []"
    using assms(3) cur by (auto simp: filter_empty_conv)
  have "filter (\<lambda>v. v \<noteq> None) ?x = ?x"
    using assms(3) by (auto simp: filter_id_conv)
  then have cv: "count_valid ?x = length ?x" by (simp add: count_valid_def)
  have "real_of_int (window div 2) \<le> real_of_int window * 0.5"
  proof -
    have "2 * (window div 2) \<le> window" by simp
    then have "real_of_int (2 * (window div 2)) \<le> real_of_int window"
      by (simp only: of_int_le_iff)
    then show ?thesis by simp
  qed
  with assms(4) have "real_of_int (window div 2) \<le> real_of_int (int (length ?x))" by simp
  then have mp: "window div 2 \<le> int (length ?x)" by (simp only: of_int_le_iff)
  from rolling_percentile_at [OF out assms(1), unfolded m cv] mp
  have "Inr (out ! i) = calc_pct window ?x" by simp
  then have "out ! i = Some 0"
    using assms(2,4) ne l rank by (auto simp: calc_pct_def Let_def split: if_splits)
  with out rank show ?thesis by simp
qed

theorem all_tied_window_zero_witness:
  "\<exists>out. rolling_percentile [Some 7, Some 7, Some 7, Some 7] 4 = Inr out \<and> out ! 3 = Some 0"
proof -
  have w: "window_at 4 [Some 7, Some 7, Some 7, Some (7::real)] 3
      = [Some 7, Some 7, Some 7, Some 7]"
    by (simp add: window_at_def)
  have 1: "3 < length [Some 7, Some 7, Some 7, Some (7::real)]" by simp
  have 2: "2 \<le> length (window_at (nat 4) [Some 7, Some 7, Some 7, Some (7::real)] 3)"
    by (simp add: w)
  have 3: "\<forall>u\<in>set (window_at (nat 4) [Some 7, Some 7, Some 7, Some (7::real)] 3). u = Some 7"
    by (simp add: w)
  have 4: "real_of_int 4 * 0.5
      \<le> real (length (window_at (nat 4) [Some 7, Some 7, Some 7, Some (7::real)] 3))"
    by (simp add: w)
  from all_tied_window_zero [OF 1 2 3 4] show ?thesis by blast
qed

text \<open>
  Claim C6, as stated, fails for window length 1, which is below 2: the computation
  does not fail and returns 0.5.
\<close>

theorem window_one_counterexample:
  "(1::int) < 2 \<and> rolling_percentile [Some 5] 1 = Inr [Some 0.5]"
  by (simp add: rolling_percentile_def rolling_apply_def py_int_def calc_pct_def
      window_at_def count_valid_def)

text \<open>
  Claim C6, amended. A negative window length fails with the ValueError of the rolling
  constructor, whatever the series; window length 1 does not fail and gives 0.5 at
  every position; an empty series gives an empty output without error for every
  window length that is not negative.
\<close>

theorem window_length_failure_modes:
  "(window < 0 \<longrightarrow> rolling_percentile series window = Inl ValueError)
   \<and> rolling_percentile series 1 = Inr (map (\<lambda>_. Some 0.5) series)
   \<and> (0 \<le> window \<longrightarrow> rolling_percentile [] window = Inr [])"
proof (intro conjI impI)
  assume neg: "window < 0"
  have "py_int (real_of_int window * 0.5) < 0 \<or> py_int (real_of_int window * 0.5) > window"
  proof -
    have "real_of_int window \<le> real_of_int window * 0.5" using neg by simp
    then have "\<lceil>real_of_int window\<rceil> \<le> \<lceil>real_of_int window * 0.5\<rceil>" by (rule ceiling_mono)
    then have "window \<le> py_int (real_of_int window * 0.5)" using neg by (simp add: py_int_def)
    then show ?thesis using neg by linarith
  qed
  then show "rolling_percentile series window = Inl ValueError"
    using neg by (auto simp: rolling_percentile_def rolling_apply_def)
next
  have m: "py_int (real_of_int 1 * 0.5) = 0" by (simp add: py_int_def)
  have "map (\<lambda>i. let x = window_at (nat 1) series i
             in if 0 \<le> int (count_valid x) then calc_pct 1 x else Inr None) [0..<length series]
        = map Inr (map (\<lambda>_. Some 0.5) series)"
  proof (rule nth_equalityI)
    show "length (map (\<lambda>i. let x = window_at (nat 1) series i
             in if 0 \<le> int (count_valid x) then calc_pct 1 x else Inr None) [0..<length series])
        = length (map Inr (map (\<lambda>_. Some 0.5) series))" by simp
  next
    fix i assume "i < length (map (\<lambda>i. let x = window_at (nat 1) series i
             in if 0 \<le> int (count_valid x) then calc_pct 1 x else Inr None) [0..<length series])"
    then have i: "i < length series" by simp
    then have "length (window_at 1 series i) = 1" by (simp add: length_window_at)
    then have "calc_pct 1 (window_at 1 series i) = Inr (Some 0.5)"
      by (cases "window_at 1 series i") (auto simp: calc_pct_def Let_def)
    then show "map (\<lambda>i. let x = window_at (nat 1) series i
             in if 0 \<le> int (count_valid x) then calc_pct 1 x else Inr None) [0..<length series] ! i
        = map Inr (map (\<lambda>_. Some 0.5) series) ! i"
      using i by simp
  qed
  then have "collect (map (\<lambda>i. let x = window_at (nat 1) series i
             in if 0 \<le> int (count_valid x) then calc_pct 1 x else Inr None) [0..<length series])
        = Inr (map (\<lambda>_. Some 0.5) series)"
    by (simp only: collect_map_Inr)
  then show "rolling_percentile series 1 = Inr (map (\<lambda>_. Some 0.5) series)"
    using m by (simp add: rolling_percentile_def rolling_apply_def)
next
  assume w: "0 \<le> window"
  have "py_int (real_of_int window * 0.5) = window div 2"
    by (rule py_int_half) (use w in linarith)
  then show "rolling_percentile [] window = Inr []"
    using w by (simp add: rolling_percentile_def rolling_apply_def)
qed

theorem window_length_failure_modes_witness:
  "rolling_percentile [Some 3, Some 4] (-1) = Inl ValueError
   \<and> rolling_percentile [Some 3, Some 4] 1 = Inr [Some 0.5, Some 0.5]
   \<and> rolling_percentile [] 4 = Inr []"
  using window_length_failure_modes [of "-1" "[Some 3, Some 4]"]
    window_length_failure_modes [of 4 "[]"]
  by simp

section \<open>Claims about the hysteresis state machine\<close>

text \<open>
  Claim C2, as stated, fails: the scan over scenario B does not emit LONG, LONG, LONG,
  SHORT, SHORT, LONG.
\<close>

theorem scenario_B_counterexample:
  "map row_signal (generate_signals
      default_params
      [(0, Some 0.03), (1, Some 0.20), (2, Some 0.40), (3, Some 0.96), (4, Some 0.72), (5, Some 0.10)])
   \<noteq> [LONG, LONG, LONG, SHORT, SHORT, LONG]"
  by (simp add: generate_signals_def default_params_def)

text \<open>
  Claim C2, amended. With thresholds 0.05, 0.30, 0.95, 0.70 and the scores 0.03, 0.20,
  0.40, 0.96, 0.72, 0.10, starting FLAT, the scan emits LONG, LONG, FLAT, SHORT, SHORT,
  FLAT: at 0.40 a long position is above the long exit and not above the short entry,
  so it is closed; at 0.10 a short position is below the short exit and not below the
  long entry, so it is closed.
\<close>

theorem scenario_B_signals:
  "map row_signal (generate_signals
      default_params
      [(0, Some 0.03), (1, Some 0.20), (2, Some 0.40), (3, Some 0.96), (4, Some 0.72), (5, Some 0.10)])
   = [LONG, LONG, FLAT, SHORT, SHORT, FLAT]"
  by (simp add: generate_signals_def default_params_def)

text \<open>
  Claim C9. For a constant score \<open>p\<close> strictly between the long entry and the short
  entry, the scan from FLAT over any number of rows emits FLAT in every row.
\<close>

theorem hysteresis_constant_flat:
  assumes "long_entry params < p" and "p < short_entry params"
  shows "map row_signal (generate_signals params (map (\<lambda>d. (d, Some p)) dates))
    = replicate (length dates) FLAT"
  unfolding generate_signals_def
  by (rule beta_scan_constant_flat) (use assms in simp_all)

theorem hysteresis_constant_flat_witness:
  "map row_signal (generate_signals
      default_params
      [(0, Some 0.5), (1, Some 0.5), (2, Some 0.5)]) = [FLAT, FLAT, FLAT]"
  using hysteresis_constant_flat [of
      "default_params"
      "0.5" "[0, 1, 2]"]
  by (simp add: numeral_3_eq_3 default_params_def)

section \<open>Claims about the backtest\<close>

text \<open>
  Claim C1. In every table that \<open>run\<close> returns, the executed position of the first
  date is 0 and the executed position of every later date \<open>t\<close> is the raw signal of
  date \<open>t - 1\<close>. So a second run on a table that agrees with the first on all rows
  before \<open>t\<close>, whatever its prices and signals from \<open>t\<close> on (and whatever its
  configuration), has the same executed position at \<open>t\<close>.
\<close>

theorem execution_lag:
  assumes "run config df = Inr res"
  shows "signal res = map snd df \<and> length (position res) = length df
    \<and> position res ! 0 = 0
    \<and> (\<forall>t. 0 < t \<and> t < length df \<longrightarrow> position res ! t = signal res ! (t - 1))
    \<and> (\<forall>config' df' res' t.
          run config' df' = Inr res' \<and> t < length df \<and> t < length df'
            \<and> take t df' = take t df
          \<longrightarrow> position res' ! t = position res ! t)"
proof -
  from run_Inr [OF assms] have res: "res = run_core config df" and len: "2 \<le> length df"
    by simp_all
  have ne: "df \<noteq> []" using len by auto
  have lag: "position (run_core c d) ! t = snd (d ! (t - 1))"
    if "0 < t" "t < length d" for c d t
    using that position_nth_Suc [of "t - 1" d c] by simp
  have a: "\<forall>t. 0 < t \<and> t < length df \<longrightarrow> position res ! t = signal res ! (t - 1)"
  proof (intro allI impI)
    fix t assume t: "0 < t \<and> t < length df"
    then have "t - 1 < length df" by linarith
    then have "map snd df ! (t - 1) = snd (df ! (t - 1))" by (rule nth_map)
    then show "position res ! t = signal res ! (t - 1)"
      using lag [of t df config] t by (simp add: res signal_run_core)
  qed
  have b: "\<forall>config' df' res' t.
          run config' df' = Inr res' \<and> t < length df \<and> t < length df'
            \<and> take t df' = take t df
          \<longrightarrow> position res' ! t = position res ! t"
  proof (intro allI impI)
    fix config' df' res' t
    assume h: "run config' df' = Inr res' \<and> t < length df \<and> t < length df'
            \<and> take t df' = take t df"
    then have res': "res' = run_core config' df'" and ne': "df' \<noteq> []"
      using run_Inr [of config' df' res'] by auto
    show "position res' ! t = position res ! t"
    proof (cases t)
      case 0
      then show ?thesis using ne ne' by (simp add: res res' position_nth_0)
    next
      case (Suc k)
      have "df' ! k = take t df' ! k" using Suc by simp
      also have "\<dots> = take t df ! k" using h by simp
      also have "\<dots> = df ! k" using Suc by simp
      finally show ?thesis using h Suc by (simp add: res res' position_nth_Suc)
    qed
  qed
  show ?thesis
    using a b ne by (simp add: res signal_run_core length_position position_nth_0)
qed

theorem execution_lag_witness:
  "position (run_core default_config [(Some 100, 1), (Some 100, -1), (Some 100, 0)]) ! 0 = 0
   \<and> position (run_core default_config [(Some 100, 1), (Some 100, -1), (Some 100, 0)]) ! 1 = 1
   \<and> position (run_core default_config [(Some 100, 1), (Some 100, -1), (Some 100, 0)]) ! 2 = - 1
   \<and> position (run_core default_config [(Some 100, 1), (Some 50, 0), (Some 70, 1)]) ! 1 = 1"
proof -
  let ?C = "default_config"
  let ?D = "[(Some 100, 1), (Some 100, -1), (Some (100::real), 0::int)]"
  let ?D' = "[(Some 100, 1), (Some 50, 0), (Some (70::real), 1::int)]"
  have r': "run ?C ?D' = Inr (run_core ?C ?D')"
    by (rule run_total) (simp_all add: default_config_def)
  note w = execution_lag [OF example_run]
  from w have s: "signal (run_core ?C ?D) = map snd ?D" by blast
  from w have p0: "position (run_core ?C ?D) ! 0 = 0" by blast
  from w have lag: "\<forall>t. 0 < t \<and> t < length ?D
      \<longrightarrow> position (run_core ?C ?D) ! t = signal (run_core ?C ?D) ! (t - 1)" by blast
  from w have nl: "\<forall>config' df' res' t.
          run config' df' = Inr res' \<and> t < length ?D \<and> t < length df'
            \<and> take t df' = take t ?D
          \<longrightarrow> position res' ! t = position (run_core ?C ?D) ! t" by blast
  from lag [rule_format, of 1] s have p1: "position (run_core ?C ?D) ! 1 = 1" by simp
  from lag [rule_format, of 2] s have p2: "position (run_core ?C ?D) ! 2 = - 1" by simp
  from nl [rule_format, of ?C ?D' "run_core ?C ?D'" 1] r' p1
  have p1': "position (run_core ?C ?D') ! 1 = 1" by simp
  from p0 p1 p2 p1' show ?thesis by simp
qed

text \<open>
  Claim C4. In every table that \<open>run\<close> returns, the cost charged at a date after the
  first is the absolute change of the executed position times the sum of commission
  and slippage rate (the first date has no earlier position and is charged 0), and the
  strategy return is the executed position times the market return minus that cost
  (NaN where the market return is NaN). A change from 0 to 1 at rates 0.001 and 0.0005
  costs 0.0015, which is subtracted from the return; a flip from 1 to -1 is charged
  twice the rate.
\<close>

theorem cost_and_return:
  assumes "run config df = Inr res" and "t < length df"
  shows "trade_cost res ! t
      = (if t = 0 then 0
         else \<bar>real_of_int (position res ! t - position res ! (t - 1))\<bar>
                * (commission_rate config + slippage_rate config))
    \<and> strategy_return res ! t
      = map_option (\<lambda>m. real_of_int (position res ! t) * m - trade_cost res ! t)
          (market_return res ! t)
    \<and> (0 < t \<and> position res ! (t - 1) = 0 \<and> position res ! t = 1
        \<and> commission_rate config = 0.001 \<and> slippage_rate config = 0.0005
        \<longrightarrow> trade_cost res ! t = 0.0015
          \<and> strategy_return res ! t = map_option (\<lambda>m. m - 0.0015) (market_return res ! t))
    \<and> (0 < t \<and> position res ! (t - 1) = 1 \<and> position res ! t = - 1
        \<longrightarrow> trade_cost res ! t = 2 * (commission_rate config + slippage_rate config))"
proof -
  from run_Inr [OF assms(1)] have res: "res = run_core config df" by simp
  have ne: "df \<noteq> []" using assms(2) by auto
  have cost: "trade_cost res ! t
      = (if t = 0 then 0
         else \<bar>real_of_int (position res ! t - position res ! (t - 1))\<bar>
                * (commission_rate config + slippage_rate config))"
  proof (cases t)
    case 0
    then show ?thesis
      using assms(2) ne
      by (simp add: res trade_cost_run_core length_position_change position_change_nth_0)
  next
    case (Suc k)
    then show ?thesis
      using assms(2)
      by (simp add: res trade_cost_run_core length_position_change position_change_nth_Suc)
  qed
  have ret: "strategy_return res ! t
      = map_option (\<lambda>m. real_of_int (position res ! t) * m - trade_cost res ! t)
          (market_return res ! t)"
    using assms(2) by (simp add: res strategy_return_nth)
  show ?thesis
  proof (intro conjI impI)
    show "trade_cost res ! t
      = (if t = 0 then 0
         else \<bar>real_of_int (position res ! t - position res ! (t - 1))\<bar>
                * (commission_rate config + slippage_rate config))" by (rule cost)
    show "strategy_return res ! t
      = map_option (\<lambda>m. real_of_int (position res ! t) * m - trade_cost res ! t)
          (market_return res ! t)" by (rule ret)
  next
    assume h: "0 < t \<and> position res ! (t - 1) = 0 \<and> position res ! t = 1
        \<and> commission_rate config = 0.001 \<and> slippage_rate config = 0.0005"
    then show c: "trade_cost res ! t = 0.0015" using cost by simp
    show "strategy_return res ! t = map_option (\<lambda>m. m - 0.0015) (market_return res ! t)"
      using ret c h by simp
  next
    assume "0 < t \<and> position res ! (t - 1) = 1 \<and> position res ! t = - 1"
    then show "trade_cost res ! t = 2 * (commission_rate config + slippage_rate config)"
      using cost by simp
  qed
qed

theorem cost_and_return_witness:
  "trade_cost (run_core default_config [(Some 100, 1), (Some 100, -1), (Some 100, 0)]) ! 1 = 0.0015
   \<and> strategy_return (run_core default_config
       [(Some 100, 1), (Some 100, -1), (Some 100, 0)]) ! 1 = Some (- 0.0015)
   \<and> trade_cost (run_core default_config [(Some 100, 1), (Some 100, -1), (Some 100, 0)]) ! 2 = 0.003"
proof -
  let ?C = "default_config"
  let ?D = "[(Some 100, 1), (Some 100, -1), (Some (100::real), 0::int)]"
  have p: "position (run_core ?C ?D) = [0, 1, - 1]"
    and m: "market_return (run_core ?C ?D) = [None, Some 0, Some 0]"
    by (simp_all add: example_core)
  have 1: "(1::nat) < length ?D" and 2: "(2::nat) < length ?D" by simp_all
  have c: "commission_rate ?C = 0.001" "slippage_rate ?C = 0.0005"
    by (simp_all add: default_config_def)
  from cost_and_return [OF example_run 1] p m c
  have a: "trade_cost (run_core ?C ?D) ! 1 = 0.0015
      \<and> strategy_return (run_core ?C ?D) ! 1 = Some (- 0.0015)" by simp
  from cost_and_return [OF example_run 2] p c
  have b: "trade_cost (run_core ?C ?D) ! 2 = 0.003" by simp
  from a b show ?thesis by simp
qed

text \<open>
  Claim C7, as stated, fails at a price of exactly zero: over the prices 100, 0, 100
  with signals 1, -1, 0 the log returns are \<open>-inf\<close> and \<open>+inf\<close>, the strategy
  equity is 1, \<open>-inf\<close>, \<open>+inf\<close>, so the last equity is a running maximum, and the
  last drawdown is \<open>inf / inf - 1\<close>, NaN, which is neither at most 0 nor 0.
\<close>

theorem drawdown_zero_price_counterexample:
  "run_ieee default_config [(Some 100, 1), (Some 0, -1), (Some 100, 0)]
     = Inr (run_core_ieee default_config [(Some 100, 1), (Some 0, -1), (Some 100, 0)])
   \<and> cumulative_strategy_ieee
        (run_core_ieee default_config [(Some 100, 1), (Some 0, -1), (Some 100, 0)])
       = [Fin 1, NInf, PInf]
   \<and> strategy_peak_ieee
        (run_core_ieee default_config [(Some 100, 1), (Some 0, -1), (Some 100, 0)])
       = [Fin 1, Fin 1, PInf]
   \<and> drawdown_ieee
        (run_core_ieee default_config [(Some 100, 1), (Some 0, -1), (Some 100, 0)])
       = [Fin 0, NInf, NaN]
   \<and> \<not> ieee_le (drawdown_ieee
        (run_core_ieee default_config [(Some 100, 1), (Some 0, -1), (Some 100, 0)]) ! 2) (Fin 0)"
  unfolding run_ieee_def zero_price_core by (simp add: default_config_def)

text \<open>
  Claim C7, amended. In every table that \<open>run_ieee\<close> returns over prices none of
  which is exactly zero, at every date \<open>t\<close> the strategy equity and its running
  maximum are numbers, the running maximum is the largest equity up to \<open>t\<close>, the
  drawdown is the equity divided by the running maximum, minus 1; it is at most 0,
  and it is 0 when the equity at \<open>t\<close> is a running maximum.
\<close>

theorem drawdown_sign_nonzero_prices:
  assumes "run_ieee config df = Inr res" and "t < length df"
    and "\<forall>r\<in>set df. fst r \<noteq> Some 0"
  shows "\<exists>equity peak.
      cumulative_strategy_ieee res ! t = Fin equity
    \<and> strategy_peak_ieee res ! t = Fin peak
    \<and> (\<forall>k\<le>t. ieee_le (cumulative_strategy_ieee res ! k) (Fin peak))
    \<and> (\<exists>k\<le>t. cumulative_strategy_ieee res ! k = Fin peak)
    \<and> drawdown_ieee res ! t = Fin (equity / peak - 1)
    \<and> ieee_le (drawdown_ieee res ! t) (Fin 0)
    \<and> ((\<forall>k\<le>t. ieee_le (cumulative_strategy_ieee res ! k) (cumulative_strategy_ieee res ! t))
        \<longrightarrow> drawdown_ieee res ! t = Fin 0)"
proof -
  from run_ieee_Inr [OF assms(1)] have res: "res = run_core_ieee config df" by simp
  let ?cum = "cumulative_strategy (run_core config df)"
  let ?S = "set (take (Suc t) ?cum)"
  note fin = drawdown_finite [OF assms(2), of config]
  have len: "length ?cum = length df" by (simp add: length_cumulative_strategy)
  have cum: "cumulative_strategy_ieee res ! k = Fin (?cum ! k)" if "k \<le> t" for k
    using that assms(2) by (simp add: res cumulative_strategy_ieee_nth [OF assms(3)])
  have peak: "strategy_peak_ieee res ! t = Fin (Max ?S)"
    by (simp add: res strategy_peak_ieee_nth [OF assms(3) assms(2)])
  have dd: "drawdown_ieee res ! t = Fin (drawdown (run_core config df) ! t)"
    by (simp add: res drawdown_agrees_nth [OF assms(3) assms(2)])
  have S: "finite ?S" "?S \<noteq> {}" using assms(2) len by auto
  have below: "\<forall>k\<le>t. ieee_le (cumulative_strategy_ieee res ! k) (Fin (Max ?S))"
  proof (intro allI impI)
    fix k assume k: "k \<le> t"
    then have "k < length (take (Suc t) ?cum)" using assms(2) len by simp
    then have "take (Suc t) ?cum ! k \<in> ?S" by (rule nth_mem)
    then have "?cum ! k \<in> ?S" using k by simp
    then have "?cum ! k \<le> Max ?S" using S(1) by (rule Max_ge [rotated])
    then show "ieee_le (cumulative_strategy_ieee res ! k) (Fin (Max ?S))"
      using cum [OF k] by simp
  qed
  have attained: "\<exists>k\<le>t. cumulative_strategy_ieee res ! k = Fin (Max ?S)"
  proof -
    have "Max ?S \<in> ?S" using S by (rule Max_in)
    then obtain k where "k < length (take (Suc t) ?cum)" and "take (Suc t) ?cum ! k = Max ?S"
      by (auto simp: in_set_conv_nth)
    then have "k \<le> t" "?cum ! k = Max ?S" by simp_all
    then show ?thesis using cum by auto
  qed
  have top: "drawdown_ieee res ! t = Fin 0"
    if h: "\<forall>k\<le>t. ieee_le (cumulative_strategy_ieee res ! k) (cumulative_strategy_ieee res ! t)"
  proof -
    have "\<forall>k\<le>t. ?cum ! k \<le> ?cum ! t"
    proof (intro allI impI)
      fix k assume k: "k \<le> t"
      with h have "ieee_le (cumulative_strategy_ieee res ! k) (cumulative_strategy_ieee res ! t)"
        by blast
      then show "?cum ! k \<le> ?cum ! t" using cum [OF k] cum [of t] by simp
    qed
    with fin have "drawdown (run_core config df) ! t = 0" by blast
    then show ?thesis using dd by simp
  qed
  from fin have eq: "drawdown (run_core config df) ! t = ?cum ! t / Max ?S - 1"
    and le0: "drawdown (run_core config df) ! t \<le> 0" by blast+
  have "drawdown_ieee res ! t = Fin (?cum ! t / Max ?S - 1)"
    unfolding dd by (simp only: eq)
  moreover have "ieee_le (drawdown_ieee res ! t) (Fin 0)"
    unfolding dd using le0 by simp
  ultimately show ?thesis
    using cum [of t] peak below attained top by blast
qed

theorem drawdown_sign_nonzero_prices_witness:
  "drawdown_ieee (run_core_ieee default_config
       [(Some 100, 1), (Some 100, -1), (Some 100, 0)]) ! 0 = Fin 0
   \<and> ieee_le (drawdown_ieee (run_core_ieee default_config
       [(Some 100, 1), (Some 100, -1), (Some 100, 0)]) ! 1) (Fin 0)"
proof -
  let ?D = "[(Some 100, 1), (Some 100, -1), (Some (100::real), 0::int)]"
  let ?R = "run_core_ieee default_config ?D"
  have z: "\<forall>r\<in>set ?D. fst r \<noteq> Some 0" by simp
  have 0: "(0::nat) < length ?D" and 1: "(1::nat) < length ?D" by simp_all
  from drawdown_sign_nonzero_prices [OF example_run_ieee 0 z]
  have "(\<forall>k\<le>(0::nat). ieee_le (cumulative_strategy_ieee ?R ! k) (cumulative_strategy_ieee ?R ! 0))
      \<longrightarrow> drawdown_ieee ?R ! 0 = Fin 0"
    and c0: "\<exists>e. cumulative_strategy_ieee ?R ! 0 = Fin e"
    by blast+
  moreover from c0
  have "\<forall>k\<le>(0::nat). ieee_le (cumulative_strategy_ieee ?R ! k) (cumulative_strategy_ieee ?R ! 0)"
    by auto
  ultimately have a: "drawdown_ieee ?R ! 0 = Fin 0" by blast
  from drawdown_sign_nonzero_prices [OF example_run_ieee 1 z]
  have b: "ieee_le (drawdown_ieee ?R ! 1) (Fin 0)" by blast
  from a b show ?thesis by blast
qed

text \<open>
  Claim C5, as stated, fails where there is no losing segment: with boundaries at rows
  1 and 3 and strategy returns NaN, 0.1, 0.1, 0 the one segment sums to 0.2, no segment
  loses, and the profit factor is 0.2 (the mean winning segment over a denominator of
  1), not 1.
\<close>

theorem profit_factor_no_losses_counterexample:
  "trade_returns [0, 1, 0, 1] [None, Some 0.1, Some 0.1, Some 0] = [0.2]
   \<and> calc_trade_stats [0, 1, 0, 1] [None, Some 0.1, Some 0.1, Some 0] = (1, 0.2, 0.2)"
  by (simp add: calc_trade_stats_def trade_returns_def trade_indices_def nansum_def dropna_def
      mean_def upt_rec Let_def)

text \<open>
  Claim C5, amended. With fewer than two boundaries the three trade statistics are 0.
  With at least two, the win rate is the share of segments with a positive sum; the
  profit factor is the mean of the positive segments (0 when there is none) divided by
  the absolute value of the mean of the negative segments when a segment loses, and
  the mean of the positive segments itself (0 when there is none) when no segment
  loses, the denominator being 1 then. The guarded ratios Sharpe, Sortino, Calmar and
  beta are 0 when their denominator is 0.
\<close>

theorem profit_factor_and_guards:
  "(length (trade_indices pc) < 2 \<longrightarrow> calc_trade_stats pc sr = (0, 0, 0))
   \<and> (2 \<le> length (trade_indices pc) \<longrightarrow>
        fst (calc_trade_stats pc sr)
          = real (length (filter (\<lambda>r. r > 0) (trade_returns pc sr)))
              / real (length (trade_returns pc sr)))
   \<and> (2 \<le> length (trade_indices pc) \<and> filter (\<lambda>r. r < 0) (trade_returns pc sr) \<noteq> [] \<longrightarrow>
        fst (snd (calc_trade_stats pc sr))
          = (if filter (\<lambda>r. r > 0) (trade_returns pc sr) = [] then 0
             else mean (filter (\<lambda>r. r > 0) (trade_returns pc sr)))
            / \<bar>mean (filter (\<lambda>r. r < 0) (trade_returns pc sr))\<bar>)
   \<and> (2 \<le> length (trade_indices pc) \<and> filter (\<lambda>r. r < 0) (trade_returns pc sr) = [] \<longrightarrow>
        fst (snd (calc_trade_stats pc sr))
          = (if filter (\<lambda>r. r > 0) (trade_returns pc sr) = [] then 0
             else mean (filter (\<lambda>r. r > 0) (trade_returns pc sr))))
   \<and> sharpe_ratio excess (Some 0) = Some 0
   \<and> sortino_ratio excess (Some 0) = Some 0
   \<and> calmar_ratio cagr (Some 0) = Some 0
   \<and> beta_ratio cv (Some 0) = Some 0"
proof (intro conjI impI)
  assume "length (trade_indices pc) < 2"
  then show "calc_trade_stats pc sr = (0, 0, 0)" by (simp add: calc_trade_stats_def)
next
  assume h: "2 \<le> length (trade_indices pc)"
  then show "fst (calc_trade_stats pc sr)
          = real (length (filter (\<lambda>r. r > 0) (trade_returns pc sr)))
              / real (length (trade_returns pc sr))"
    using trade_returns_nonempty [OF h, of sr] by (simp add: calc_trade_stats_def Let_def)
next
  assume h: "2 \<le> length (trade_indices pc) \<and> filter (\<lambda>r. r < 0) (trade_returns pc sr) \<noteq> []"
  then have ne: "trade_returns pc sr \<noteq> []" using trade_returns_nonempty by blast
  from h have "mean (filter (\<lambda>r. r < 0) (trade_returns pc sr)) < 0"
    using mean_losses_neg by blast
  then have pos: "0 < \<bar>mean (filter (\<lambda>r. r < 0) (trade_returns pc sr))\<bar>" by simp
  show "fst (snd (calc_trade_stats pc sr))
          = (if filter (\<lambda>r. r > 0) (trade_returns pc sr) = [] then 0
             else mean (filter (\<lambda>r. r > 0) (trade_returns pc sr)))
            / \<bar>mean (filter (\<lambda>r. r < 0) (trade_returns pc sr))\<bar>"
    using h ne pos by (simp add: calc_trade_stats_def Let_def)
next
  assume h: "2 \<le> length (trade_indices pc) \<and> filter (\<lambda>r. r < 0) (trade_returns pc sr) = []"
  then have ne: "trade_returns pc sr \<noteq> []" using trade_returns_nonempty by blast
  show "fst (snd (calc_trade_stats pc sr))
          = (if filter (\<lambda>r. r > 0) (trade_returns pc sr) = [] then 0
             else mean (filter (\<lambda>r. r > 0) (trade_returns pc sr)))"
    using h ne by (simp add: calc_trade_stats_def Let_def)
qed (simp_all add: sharpe_ratio_def sortino_ratio_def calmar_ratio_def beta_ratio_def)

theorem profit_factor_and_guards_witness:
  "calc_trade_stats [0, 1, 1, 1] [None, Some 0.1, Some (- 0.3), Some 0.4] = (0.5, 0.5, - 0.05)
   \<and> trade_returns [0, 1, 1, 1] [None, Some 0.1, Some (- 0.3), Some 0.4] = [- 0.2, 0.1]
   \<and> fst (snd (calc_trade_stats [0, 1, 1, 1] [None, Some 0.1, Some (- 0.3), Some 0.4]))
       = mean [0.1] / \<bar>mean [- 0.2]\<bar>
   \<and> calc_trade_stats [0, 1, 0, 0] [None, Some 0.1, Some (- 0.3), Some 0.4] = (0, 0, 0)
   \<and> sharpe_ratio (Some 0.05) (Some 0) = Some 0"
proof -
  have tr: "trade_returns [0, 1, 1, 1] [None, Some 0.1, Some (- 0.3), Some 0.4] = [- 0.2, 0.1]"
    by (simp add: trade_returns_def trade_indices_def nansum_def dropna_def upt_rec Let_def)
  have ti: "trade_indices [0, 1, 1, 1] = [1, 2, 3]" "trade_indices [0, 1, 0, 0] = [1]"
    by (simp_all add: trade_indices_def upt_rec)
  have c: "calc_trade_stats [0, 1, 1, 1] [None, Some 0.1, Some (- 0.3), Some 0.4]
      = (0.5, 0.5, - 0.05)"
    unfolding calc_trade_stats_def tr ti by (simp add: mean_def Let_def)
  from profit_factor_and_guards
    [of "[0, 1, 1, 1]" "[None, Some 0.1, Some (- 0.3), Some 0.4]" "Some 0.05"]
  have a: "fst (snd (calc_trade_stats [0, 1, 1, 1] [None, Some 0.1, Some (- 0.3), Some 0.4]))
       = mean [0.1] / \<bar>mean [- 0.2]\<bar>"
    unfolding tr ti by simp
  from profit_factor_and_guards
    [of "[0, 1, 0, 0]" "[None, Some 0.1, Some (- 0.3), Some 0.4]" "Some 0.05"]
  have b: "calc_trade_stats [0, 1, 0, 0] [None, Some 0.1, Some (- 0.3), Some 0.4] = (0, 0, 0)"
    and s: "sharpe_ratio (Some 0.05) (Some 0) = Some 0"
    unfolding ti by simp_all
  show ?thesis by (intro conjI) (rule c tr a b s)+
qed

end
